theory Spec2Isabelle
  imports Complex_Main "HOL-Library.Sublist"
begin

section \<open>Numbers, strings and arrays of the host language\<close>

text \<open>
  The program is JavaScript. Its numbers are IEEE double precision values; the ranking
  code adds, multiplies, divides and compares them and takes square roots. The embedding
  computes the scores over \<^typ>\<open>real\<close>, with \<open>NaN\<close> where the program computes with a missing
  field. What is proved of the ranking (the order of the results, their number, which
  documents appear) is proved from the comparisons of the scores, whatever numbers they
  are. Where rounding decides a property (the cosine of a vector with itself), the double
  precision arithmetic is modelled as well, with overflow, underflow and \<open>NaN\<close>, in a
  section of its own. Strings are byte lists; \<open>toLowerCase\<close> is modelled on the ASCII
  letters and leaves every other byte as it is, and white space is the ASCII white space.
\<close>

datatype error = DimensionMismatch | ProviderError string

text \<open>
  A score of the ranking is a number or \<open>NaN\<close>. \<open>NaN\<close> arises where the program computes
  with a field that an object does not have: \<open>undefined\<close> becomes \<open>NaN\<close> as a number. An
  arithmetic operation or \<open>Math.min\<close> with \<open>NaN\<close> gives \<open>NaN\<close>, and every comparison with
  \<open>NaN\<close> is false, \<open>===\<close> too. The only division of a score is by the constant 20.
\<close>

datatype number = Num real | NaN

fun to_number :: "real option \<Rightarrow> number" where
  "to_number None = NaN"
| "to_number (Some x) = Num x"

fun number_op :: "(real \<Rightarrow> real \<Rightarrow> real) \<Rightarrow> number \<Rightarrow> number \<Rightarrow> number" where
  "number_op f (Num x) (Num y) = Num (f x y)"
| "number_op f NaN y = NaN"
| "number_op f (Num x) NaN = NaN"

definition number_add :: "number \<Rightarrow> number \<Rightarrow> number" where
  "number_add = number_op (\<lambda>x y. x + y)"

definition number_sub :: "number \<Rightarrow> number \<Rightarrow> number" where
  "number_sub = number_op (\<lambda>x y. x - y)"

definition number_mul :: "number \<Rightarrow> number \<Rightarrow> number" where
  "number_mul = number_op (\<lambda>x y. x * y)"

definition number_div :: "number \<Rightarrow> number \<Rightarrow> number" where
  "number_div = number_op (\<lambda>x y. x / y)"

definition number_min :: "number \<Rightarrow> number \<Rightarrow> number" where
  "number_min = number_op min"

fun number_le :: "number \<Rightarrow> number \<Rightarrow> bool" where
  "number_le (Num x) (Num y) = (x \<le> y)"
| "number_le NaN y = False"
| "number_le (Num x) NaN = False"


definition toLowerChar :: "char \<Rightarrow> char" where
  "toLowerChar c =
     (let n = (of_char c :: nat) in if 65 \<le> n \<and> n \<le> 90 then char_of (n + 32) else c)"

definition toLowerCase :: "string \<Rightarrow> string" where
  "toLowerCase s = map toLowerChar s"

text \<open>\<open>s.startsWith(t)\<close> and \<open>s.includes(t)\<close>: \<open>t\<close> occurs in \<open>s\<close> as a contiguous run.\<close>

fun startsWith :: "string \<Rightarrow> string \<Rightarrow> bool" where
  "startsWith s [] = True"
| "startsWith [] (c # t) = False"
| "startsWith (d # s) (c # t) = (d = c \<and> startsWith s t)"

fun includes_str :: "string \<Rightarrow> string \<Rightarrow> bool" where
  "includes_str [] t = (t = [])"
| "includes_str (d # s) t = (startsWith (d # s) t \<or> includes_str s t)"

text \<open>\<open>parts.join(sep)\<close>.\<close>

fun join :: "string \<Rightarrow> string list \<Rightarrow> string" where
  "join sep [] = []"
| "join sep [p] = p"
| "join sep (p # q # ps) = p @ sep @ join sep (q # ps)"

text \<open>
  \<open>[...new Set(xs)]\<close>: the elements of \<open>xs\<close> in the order of their first occurrence.
\<close>

fun dedupe_from :: "'a list \<Rightarrow> 'a list \<Rightarrow> 'a list" where
  "dedupe_from seen [] = []"
| "dedupe_from seen (x # xs) =
     (if x \<in> set seen then dedupe_from seen xs else x # dedupe_from (x # seen) xs)"

definition dedupe :: "'a list \<Rightarrow> 'a list" where
  "dedupe xs = dedupe_from [] xs"

text \<open>
  \<open>xs.slice(0, k)\<close>: a negative end counts from the end of the array, as ECMAScript
  defines it.
\<close>

definition slice0 :: "int \<Rightarrow> 'a list \<Rightarrow> 'a list" where
  "slice0 k xs = (if k < 0 then take (nat (int (length xs) + k)) xs else take (nat k) xs)"

text \<open>
  \<open>xs.sort(cmp)\<close>. ECMAScript requires the sort to be stable, so for a consistent
  comparator the result is determined: it is the one a stable insertion sort gives. An
  element goes in front of the first one that the comparator does not put before it. The
  sort reads a comparator result that is \<open>NaN\<close> as 0 (\<open>sort_order\<close>); a comparator that
  returns \<open>NaN\<close> for some pairs is not consistent, and the order of the result is then
  left to the implementation.
\<close>

fun sort_order :: "number \<Rightarrow> real" where
  "sort_order (Num x) = x"
| "sort_order NaN = 0"

fun insert_by :: "('a \<Rightarrow> 'a \<Rightarrow> real) \<Rightarrow> 'a \<Rightarrow> 'a list \<Rightarrow> 'a list" where
  "insert_by cmp x [] = [x]"
| "insert_by cmp x (y # ys) =
     (if cmp x y \<le> 0 then x # y # ys else y # insert_by cmp x ys)"

definition sort_by :: "('a \<Rightarrow> 'a \<Rightarrow> real) \<Rightarrow> 'a list \<Rightarrow> 'a list" where
  "sort_by cmp xs = foldr (insert_by cmp) xs []"

section \<open>Cosine similarity (embedding-service.js)\<close>

text \<open>
  The loop of \<open>calculateCosineSimilarity\<close> runs over the indices of both vectors and keeps
  three accumulators: the dot product and the two squared norms.
\<close>

definition accumulate :: "real list \<Rightarrow> real list \<Rightarrow> real \<times> real \<times> real" where
  "accumulate a b =
     fold (\<lambda>(x, y) (dotProduct, normA, normB).
             (dotProduct + x * y, normA + x * x, normB + y * y))
          (zip a b) (0, 0, 0)"

text \<open>
  The three ways the function ends: the throw on vectors of different lengths, the early
  \<open>return 0\<close> on a zero norm, and the final division, with its dividend and its divisor.
\<close>

datatype outcome = Threw | ReturnedZero | Divided real real

definition cosine_path :: "real list \<Rightarrow> real list \<Rightarrow> outcome" where
  "cosine_path a b =
     (if length a \<noteq> length b then Threw
      else case accumulate a b of (dotProduct, sqA, sqB) \<Rightarrow>
        let normA = sqrt sqA; normB = sqrt sqB in
        if normA = 0 \<or> normB = 0 then ReturnedZero
        else Divided dotProduct (normA * normB))"

definition calculateCosineSimilarity :: "real list \<Rightarrow> real list \<Rightarrow> error + real" where
  "calculateCosineSimilarity a b =
     (case cosine_path a b of
        Threw \<Rightarrow> Inl DimensionMismatch
      | ReturnedZero \<Rightarrow> Inr 0
      | Divided n d \<Rightarrow> Inr (n / d))"

section \<open>Documents\<close>

text \<open>
  A cell as the spreadsheet parser builds it, and a range of cells grouped under one
  column header. A field that the program tests for truthiness before it reads it is an
  option here (\<open>None\<close> is \<open>null\<close>); an empty string is falsy as well.
\<close>

record context_entry =
  ctx_value :: string
  ctx_row :: nat
  ctx_column :: nat
  ctx_distance :: nat

record headers =
  h_row :: "string option"
  h_column :: "string option"
  h_context :: "context_entry list"

text \<open>
  The object that \<open>parseFormula\<close> stores in a cell, with the fields the ranking reads. A
  formula that was parsed has its functions, its complexity and its type. When the parser
  reports an error or throws, \<open>parseFormula\<close> returns an object with the error, the
  original text and empty lists of functions, references and operators, and with neither
  a complexity nor a type (\<open>parseFormula_failure\<close>).
\<close>

record parsed_formula =
  pf_functions :: "string list option"
  pf_complexity :: "real option"
  pf_type :: "string option"

definition parseFormula_failure :: parsed_formula where
  "parseFormula_failure = \<lparr>pf_functions = Some [], pf_complexity = None, pf_type = None\<rparr>"

record cell =
  c_id :: string
  c_sheetName :: string
  c_row :: nat
  c_column :: nat
  c_rawValue :: "string option"
  c_formattedValue :: "string option"
  c_formula :: "string option"
  c_parsedFormula :: "parsed_formula option"
  c_headers :: "headers option"

record range_doc =
  r_id :: string
  r_sheetName :: string
  r_header :: "string option"
  r_cells :: "cell list"
  r_startRow :: nat
  r_endRow :: nat
  r_sampleValues :: "string list"
  r_hasFormulas :: bool
  r_formulaPattern :: "string option"

text \<open>Truthiness of a string that may be \<open>null\<close>, and \<open>a || b\<close> on such strings.\<close>

fun truthy :: "string option \<Rightarrow> bool" where
  "truthy None = False"
| "truthy (Some s) = (s \<noteq> [])"

definition or_else :: "string option \<Rightarrow> string option \<Rightarrow> string option" where
  "or_else a b = (if truthy a then a else b)"

text \<open>A template literal prints \<open>null\<close> for a missing string.\<close>

fun template :: "string option \<Rightarrow> string" where
  "template None = ''null''"
| "template (Some s) = s"

text \<open>The optional chains \<open>cell.headers?.column\<close>, \<open>cell.headers?.row\<close> and \<open>cell.headers?.context\<close>.\<close>

definition headers_column :: "cell \<Rightarrow> string option" where
  "headers_column c = (case c_headers c of None \<Rightarrow> None | Some h \<Rightarrow> h_column h)"

definition headers_row :: "cell \<Rightarrow> string option" where
  "headers_row c = (case c_headers c of None \<Rightarrow> None | Some h \<Rightarrow> h_row h)"

definition headers_context :: "cell \<Rightarrow> context_entry list" where
  "headers_context c = (case c_headers c of None \<Rightarrow> [] | Some h \<Rightarrow> h_context h)"

text \<open>Decimal digits of a number, as a template literal prints a row or column number.\<close>

fun string_of_nat :: "nat \<Rightarrow> string" where
  "string_of_nat n =
     (if n < 10 then [char_of (48 + n)]
      else string_of_nat (n div 10) @ [char_of (48 + n mod 10)])"

section \<open>Heuristics (heuristics.js)\<close>

definition matchesPattern :: "string \<Rightarrow> string list \<Rightarrow> bool" where
  "matchesPattern text patterns = list_ex (\<lambda>pattern. includes_str text (toLowerCase pattern)) patterns"

text \<open>The text blob of \<open>detectBusinessConcepts\<close>: the value, then the header texts.\<close>

definition headerText :: "cell \<Rightarrow> string" where
  "headerText c =
     toLowerCase (join '' ''
       (map the (filter truthy
          ([headers_column c, headers_row c] @ map (\<lambda>e. Some (ctx_value e)) (headers_context c)))))"

definition allText :: "cell \<Rightarrow> string" where
  "allText c =
     toLowerCase (template (or_else (or_else (c_formattedValue c) (c_rawValue c)) (Some [])))
       @ '' '' @ headerText c"

definition formula_matches :: "cell \<Rightarrow> string list \<Rightarrow> bool" where
  "formula_matches c patterns =
     (case c_formula c of
        None \<Rightarrow> False
      | Some f \<Rightarrow> f \<noteq> [] \<and> matchesPattern (toLowerCase f) patterns)"

definition detectBusinessConcepts :: "cell \<Rightarrow> string list" where
  "detectBusinessConcepts c =
     (let t = allText c in
      dedupe
       ((if matchesPattern t [''revenue'', ''sales'', ''income'', ''earnings''] then [''revenue''] else [])
        @ (if matchesPattern t [''cost'', ''expense'', ''cogs'', ''cost of goods'', ''operating expense'']
           then [''cost''] else [])
        @ (if matchesPattern t [''profit'', ''margin'', ''gross profit'', ''net profit'', ''ebitda'']
           then [''profitability''] else [])
        @ (if matchesPattern t [''%'', ''percent'', ''percentage'', ''rate'', ''ratio'']
           then [''percentage''] else [])
        @ (if matchesPattern t [''growth'', ''increase'', ''decrease'', ''change'', ''cagr'', ''yoy'']
           then [''growth''] else [])
        @ (if matchesPattern t [''budget'', ''actual'', ''variance'', ''forecast'', ''projection'']
           then [''budget''] else [])
        @ (if matchesPattern t [''q1'', ''q2'', ''q3'', ''q4'', ''quarter'', ''monthly'', ''yearly'', ''annual'']
           then [''time_series''] else [])
        @ (if matchesPattern t [''roi'', ''roa'', ''roe'', ''debt'', ''equity'', ''ratio'']
           then [''financial_ratio''] else [])
        @ (if formula_matches c [''vlookup'', ''hlookup'', ''xlookup'', ''index'', ''match'']
           then [''lookup''] else [])
        @ (if formula_matches c [''sum'', ''average'', ''count'', ''max'', ''min'']
           then [''aggregation''] else [])
        @ (if formula_matches c [''if'', ''ifs'', ''switch'', ''choose'']
           then [''conditional''] else [])))"

definition calculateConceptMatch :: "string list \<Rightarrow> string list \<Rightarrow> real" where
  "calculateConceptMatch cellConcepts queryConcepts =
     (if length cellConcepts = 0 \<or> length queryConcepts = 0 then 0
      else
        let intersection = filter (\<lambda>concept. concept \<in> set queryConcepts) cellConcepts
        in real (length intersection) / real (max (length cellConcepts) (length queryConcepts)))"

definition complexFunctions :: "string list" where
  "complexFunctions = [''VLOOKUP'', ''INDEX'', ''MATCH'', ''XLOOKUP'', ''IFS'', ''SWITCH'']"

text \<open>
  \<open>detectFormulaComplexity\<close>. The guard returns 0 for a missing object and for one without
  a function list; an empty function list is truthy and passes it. The complexity is read
  whether the object has one or not.
\<close>

definition detectFormulaComplexity :: "parsed_formula option \<Rightarrow> number" where
  "detectFormulaComplexity parsedFormula =
     (case parsedFormula of
        None \<Rightarrow> Num 0
      | Some pf \<Rightarrow>
          (case pf_functions pf of
             None \<Rightarrow> Num 0
           | Some functions \<Rightarrow>
               let complexity = to_number (pf_complexity pf);
                   maxComplexity = Num 20;
                   normalizedComplexity = number_min (number_div complexity maxComplexity) (Num 1);
                   hasComplexFunctions = list_ex (\<lambda>fn. fn \<in> set complexFunctions) functions
               in if hasComplexFunctions then number_min (number_add normalizedComplexity (Num 0.3)) (Num 1)
                  else normalizedComplexity))"

definition calculateSheetImportance :: "string \<Rightarrow> real" where
  "calculateSheetImportance sheetName =
     (let name = toLowerCase sheetName in
      if matchesPattern name [''p&l'', ''profit'', ''income'', ''revenue'', ''financial'', ''budget'', ''forecast'']
      then 1.0
      else if matchesPattern name [''dashboard'', ''summary'', ''overview'', ''analysis'', ''metrics'']
      then 0.7
      else if matchesPattern name [''raw'', ''data'', ''input'', ''temp'', ''backup'']
      then 0.3
      else 0.5)"

text \<open>
  \<open>generateEmbeddingText\<close> of heuristics.js: the canonical text of a cell, with the row
  header, the formula type and the first three context values.
\<close>

definition heuristics_generateEmbeddingText :: "cell \<Rightarrow> string" where
  "heuristics_generateEmbeddingText c =
     join '' - ''
       ([''Sheet: '' @ c_sheetName c]
        @ (if truthy (headers_column c) then [''Column: '' @ template (headers_column c)] else [])
        @ (if truthy (headers_row c) then [''Row: '' @ template (headers_row c)] else [])
        @ (if truthy (c_formula c)
           then [''Formula: '' @ template (c_formula c)]
                @ (case c_parsedFormula c of
                     None \<Rightarrow> []
                   | Some pf \<Rightarrow> if truthy (pf_type pf) then [''Type: '' @ template (pf_type pf)] else [])
           else if truthy (c_formattedValue c) then [''Value: '' @ template (c_formattedValue c)]
           else [])
        @ (if length (headers_context c) > 0
           then [''Context: '' @ join '', '' (map ctx_value (take 3 (headers_context c)))]
           else []))"

section \<open>Label service (label-service.js)\<close>

text \<open>
  A label set with its confidence: the heuristic and the basic labels carry one number,
  the language model one number per label.
\<close>

datatype confidence = Overall real | PerLabel "real list"

record label_result =
  lr_labels :: "string list"
  lr_confidence :: confidence
  lr_method :: string
  lr_explanation :: string

definition generateExplanation :: "string list \<Rightarrow> string" where
  "generateExplanation labels =
     (let explanations =
        (if ''revenue'' \<in> set labels then [''contains revenue-related terms''] else [])
        @ (if ''cost'' \<in> set labels then [''contains cost-related terms''] else [])
        @ (if ''profitability'' \<in> set labels then [''contains profitability indicators''] else [])
        @ (if ''percentage'' \<in> set labels then [''contains percentage calculations''] else [])
        @ (if ''formula'' \<in> set labels then [''contains formula''] else [])
        @ (if ''budget'' \<in> set labels then [''contains budget-related terms''] else [])
      in if join '', '' explanations = [] then ''general data'' else join '', '' explanations)"

definition generateBasicLabels :: "cell \<Rightarrow> string list" where
  "generateBasicLabels c =
     (let t = allText c;
          labels =
            (if includes_str t ''revenue'' \<or> includes_str t ''sales'' then [''revenue''] else [])
            @ (if includes_str t ''cost'' \<or> includes_str t ''expense'' then [''cost''] else [])
            @ (if includes_str t ''profit'' \<or> includes_str t ''margin'' then [''profitability''] else [])
            @ (if includes_str t ''%'' \<or> includes_str t ''percent'' then [''percentage''] else [])
            @ (if truthy (c_formula c) then [''formula''] else [])
            @ (if includes_str t ''budget'' \<or> includes_str t ''actual'' then [''budget''] else [])
      in if length labels > 0 then labels else [''data''])"

section \<open>External providers and the state of the services\<close>

text \<open>
  The two backends are outside the program: the embedding service (a remote model behind a
  cache) and the language model of the label service. Each is a function on a state of
  its own that returns a result or fails. \<open>labelInitialized\<close> is the flag the label service
  tests before it asks the language model.
\<close>

record ('p, 'l) services =
  generateEmbedding :: "'p \<Rightarrow> string \<Rightarrow> string \<Rightarrow> (error + real list) \<times> 'p"
  labelInitialized :: bool
  generateLLMLabels :: "'l \<Rightarrow> cell \<Rightarrow> (error + label_result) \<times> 'l"

definition basic_result :: "cell \<Rightarrow> label_result" where
  "basic_result c =
     \<lparr>lr_labels = generateBasicLabels c, lr_confidence = Overall 0.5, lr_method = ''basic'',
      lr_explanation = generateExplanation (generateBasicLabels c)\<rparr>"

text \<open>
  \<open>generateLabels\<close>: the heuristic labels when there are any, else the language model when
  the service is initialised, else (also when the language model fails: the error is
  caught) the basic labels.
\<close>

definition generateLabels :: "('p, 'l) services \<Rightarrow> 'l \<Rightarrow> cell \<Rightarrow> label_result \<times> 'l" where
  "generateLabels S l c =
     (let heuristicLabels = detectBusinessConcepts c in
      if length heuristicLabels > 0
      then (\<lparr>lr_labels = heuristicLabels, lr_confidence = Overall 0.8, lr_method = ''heuristic'',
             lr_explanation = generateExplanation heuristicLabels\<rparr>, l)
      else if labelInitialized S
      then (case generateLLMLabels S l c of
              (Inr llmLabels, l') \<Rightarrow> (llmLabels\<lparr>lr_method := ''llm''\<rparr>, l')
            | (Inl e, l') \<Rightarrow> (basic_result c, l'))
      else (basic_result c, l))"

text \<open>
  The synthetic cell of \<open>generateRangeLabels\<close>. It has no position; no function reads the
  row or the column of it.
\<close>

definition syntheticCell :: "range_doc \<Rightarrow> cell" where
  "syntheticCell r =
     \<lparr>c_id = r_id r, c_sheetName = r_sheetName r, c_row = 0, c_column = 0,
      c_rawValue = None,
      c_formattedValue = Some (join '', '' (r_sampleValues r)),
      c_formula = (if r_hasFormulas r then Some ''formula_range'' else None),
      c_parsedFormula = None,
      c_headers = Some \<lparr>h_row = None, h_column = r_header r, h_context = []\<rparr>\<rparr>"

definition generateRangeLabels :: "('p, 'l) services \<Rightarrow> 'l \<Rightarrow> range_doc \<Rightarrow> label_result \<times> 'l" where
  "generateRangeLabels S l r = generateLabels S l (syntheticCell r)"

section \<open>Search service (search-service.js)\<close>

text \<open>
  An indexed document is the cell or the range with its embedding and its labels. The
  program tells a range from a cell by its \<open>cells\<close> field.
\<close>

datatype source = CellDoc cell | RangeDoc range_doc

record stored =
  s_source :: source
  s_embedding :: "real list"
  s_labels :: "string list"
  s_labelConfidence :: confidence
  s_labelMethod :: string
  s_labelExplanation :: string

definition doc_id :: "stored \<Rightarrow> string" where
  "doc_id d = (case s_source d of CellDoc c \<Rightarrow> c_id c | RangeDoc r \<Rightarrow> r_id r)"

definition doc_sheetName :: "stored \<Rightarrow> string" where
  "doc_sheetName d = (case s_source d of CellDoc c \<Rightarrow> c_sheetName c | RangeDoc r \<Rightarrow> r_sheetName r)"

definition doc_cells :: "stored \<Rightarrow> bool" where
  "doc_cells d = (case s_source d of CellDoc c \<Rightarrow> False | RangeDoc r \<Rightarrow> True)"

definition doc_headers_column :: "stored \<Rightarrow> string option" where
  "doc_headers_column d = (case s_source d of CellDoc c \<Rightarrow> headers_column c | RangeDoc r \<Rightarrow> None)"

definition doc_headers_row :: "stored \<Rightarrow> string option" where
  "doc_headers_row d = (case s_source d of CellDoc c \<Rightarrow> headers_row c | RangeDoc r \<Rightarrow> None)"

definition doc_formattedValue :: "stored \<Rightarrow> string option" where
  "doc_formattedValue d = (case s_source d of CellDoc c \<Rightarrow> c_formattedValue c | RangeDoc r \<Rightarrow> None)"

definition doc_formula :: "stored \<Rightarrow> string option" where
  "doc_formula d = (case s_source d of CellDoc c \<Rightarrow> c_formula c | RangeDoc r \<Rightarrow> None)"

definition doc_parsedFormula :: "stored \<Rightarrow> parsed_formula option" where
  "doc_parsedFormula d = (case s_source d of CellDoc c \<Rightarrow> c_parsedFormula c | RangeDoc r \<Rightarrow> None)"

text \<open>
  The index is a \<open>Map\<close>: it iterates in the order in which the keys were first set, and
  setting a key again replaces the value where it stands.
\<close>

type_synonym index = "(string \<times> stored) list"

fun index_set :: "string \<Rightarrow> stored \<Rightarrow> index \<Rightarrow> index" where
  "index_set k v [] = [(k, v)]"
| "index_set k v ((k', v') # rest) =
     (if k' = k then (k, v) # rest else (k', v') # index_set k v rest)"

record ('p, 'l) world =
  w_index :: index
  w_embeddings :: 'p
  w_labels :: 'l

text \<open>The embedding text the search service builds for a cell and for a range.\<close>

definition SearchService_generateEmbeddingText :: "cell \<Rightarrow> string" where
  "SearchService_generateEmbeddingText doc =
     join '' - ''
       ([''Sheet: '' @ c_sheetName doc]
        @ (if truthy (headers_column doc) then [''Column: '' @ template (headers_column doc)] else [])
        @ (if truthy (c_formula doc) then [''Formula: '' @ template (c_formula doc)]
           else if truthy (c_formattedValue doc) then [''Value: '' @ template (c_formattedValue doc)]
           else []))"

definition SearchService_generateRangeEmbeddingText :: "range_doc \<Rightarrow> string" where
  "SearchService_generateRangeEmbeddingText r =
     join '' - ''
       ([''Sheet: '' @ r_sheetName r,
         ''Header: '' @ template (r_header r),
         ''Range: '' @ string_of_nat (r_startRow r) @ ''-'' @ string_of_nat (r_endRow r)]
        @ (if length (r_sampleValues r) > 0
           then [''Values: '' @ join '', '' (take 3 (r_sampleValues r))] else []))"

definition store_doc :: "source \<Rightarrow> real list \<Rightarrow> label_result \<Rightarrow> stored" where
  "store_doc src embedding labels =
     \<lparr>s_source = src, s_embedding = embedding, s_labels = lr_labels labels,
      s_labelConfidence = lr_confidence labels, s_labelMethod = lr_method labels,
      s_labelExplanation = lr_explanation labels\<rparr>"

text \<open>
  \<open>addToIndex\<close> and \<open>addRangesToIndex\<close>: one pass over the batch, awaiting the embedding and
  the labels of each item. Nothing catches a rejected embedding request, so the call ends
  there with that error.
\<close>

fun addToIndex ::
  "('p, 'l) services \<Rightarrow> ('p, 'l) world \<Rightarrow> cell list \<Rightarrow> (error + unit) \<times> ('p, 'l) world" where
  "addToIndex S w [] = (Inr (), w)"
| "addToIndex S w (doc # documents) =
     (let embeddingText = SearchService_generateEmbeddingText doc in
      case generateEmbedding S (w_embeddings w) embeddingText ''cell'' of
        (Inl e, p') \<Rightarrow> (Inl e, w\<lparr>w_embeddings := p'\<rparr>)
      | (Inr embedding, p') \<Rightarrow>
          (case generateLabels S (w_labels w) doc of
             (labels, l') \<Rightarrow>
               addToIndex S
                 \<lparr>w_index = index_set (c_id doc) (store_doc (CellDoc doc) embedding labels) (w_index w),
                  w_embeddings = p', w_labels = l'\<rparr>
                 documents))"

fun addRangesToIndex ::
  "('p, 'l) services \<Rightarrow> ('p, 'l) world \<Rightarrow> range_doc list \<Rightarrow> (error + unit) \<times> ('p, 'l) world" where
  "addRangesToIndex S w [] = (Inr (), w)"
| "addRangesToIndex S w (r # ranges) =
     (let embeddingText = SearchService_generateRangeEmbeddingText r in
      case generateEmbedding S (w_embeddings w) embeddingText ''range'' of
        (Inl e, p') \<Rightarrow> (Inl e, w\<lparr>w_embeddings := p'\<rparr>)
      | (Inr embedding, p') \<Rightarrow>
          (case generateRangeLabels S (w_labels w) r of
             (labels, l') \<Rightarrow>
               addRangesToIndex S
                 \<lparr>w_index = index_set (r_id r) (store_doc (RangeDoc r) embedding labels) (w_index w),
                  w_embeddings = p', w_labels = l'\<rparr>
                 ranges))"

subsection \<open>Configuration and options\<close>

text \<open>
  The environment variables the service reads, after \<open>parseInt\<close> or \<open>parseFloat\<close>
  (\<open>None\<close>: unset or not a number), and the options of a search call. \<open>x || d\<close> takes the
  default also when the number is zero. \<open>topK\<close> is an integer of either sign: the route
  passes on what the request holds, and \<open>slice\<close> drops a fraction.
\<close>

record env =
  env_DEFAULT_TOP_K :: "int option"
  env_SEMANTIC_WEIGHT :: "real option"
  env_CONCEPT_MATCH_WEIGHT :: "real option"
  env_FORMULA_COMPLEXITY_WEIGHT :: "real option"
  env_SHEET_IMPORTANCE_WEIGHT :: "real option"

record options =
  o_topK :: "int option"
  o_includeRanges :: "bool option"

definition number_or :: "'a::zero option \<Rightarrow> 'a \<Rightarrow> 'a" where
  "number_or x d = (case x of None \<Rightarrow> d | Some v \<Rightarrow> if v = 0 then d else v)"

definition topK_of :: "env \<Rightarrow> options \<Rightarrow> int" where
  "topK_of E opts =
     (case o_topK opts of Some k \<Rightarrow> k | None \<Rightarrow> number_or (env_DEFAULT_TOP_K E) 10)"

definition includeRanges_of :: "options \<Rightarrow> bool" where
  "includeRanges_of opts = (case o_includeRanges opts of Some b \<Rightarrow> b | None \<Rightarrow> True)"

subsection \<open>Semantic search\<close>

definition conceptMap :: "(string \<times> string list) list" where
  "conceptMap =
     [(''profit'', [''profitability'']), (''margin'', [''profitability'']),
      (''revenue'', [''revenue'']), (''sales'', [''revenue'']),
      (''cost'', [''cost'']), (''expense'', [''cost'']),
      (''percentage'', [''percentage'']), (''ratio'', [''percentage'']),
      (''growth'', [''growth'']),
      (''budget'', [''budget'']), (''actual'', [''budget'']), (''forecast'', [''budget'']),
      (''lookup'', [''lookup'']), (''vlookup'', [''lookup'']),
      (''formula'', [''formula'']), (''calculation'', [''formula''])]"

definition detectQueryConcepts :: "string \<Rightarrow> string list" where
  "detectQueryConcepts query =
     (let lowerQuery = toLowerCase query in
      dedupe (concat (map (\<lambda>(t, conceptList). if includes_str lowerQuery t then conceptList else [])
                          conceptMap)))"

text \<open>
  The weighted sum of the four scores. The similarity, the concept match and the sheet
  importance are numbers; the formula complexity may be \<open>NaN\<close>, and so may the sum.
\<close>

definition calculateFinalScore :: "env \<Rightarrow> real \<Rightarrow> real \<Rightarrow> number \<Rightarrow> real \<Rightarrow> number" where
  "calculateFinalScore E similarity conceptMatch formulaComplexity sheetImportance =
     number_add
       (number_add
          (number_add (Num (number_or (env_SEMANTIC_WEIGHT E) 0.7 * similarity))
                      (Num (number_or (env_CONCEPT_MATCH_WEIGHT E) 0.15 * conceptMatch)))
          (number_mul (Num (number_or (env_FORMULA_COMPLEXITY_WEIGHT E) 0.1)) formulaComplexity))
       (Num (number_or (env_SHEET_IMPORTANCE_WEIGHT E) 0.05 * sheetImportance))"

record scored =
  sc_docId :: string
  sc_doc :: stored
  sc_similarity :: real
  sc_conceptMatch :: real
  sc_formulaComplexity :: number
  sc_sheetImportance :: real
  sc_finalScore :: number

text \<open>
  The loop over the index that scores every document. A range is skipped when ranges are
  not asked for; vectors of different lengths make the cosine throw, which ends the search.
  The similarity is the cosine in exact arithmetic, of embeddings that are finite numbers.
\<close>

fun similarities_of ::
  "env \<Rightarrow> bool \<Rightarrow> real list \<Rightarrow> string list \<Rightarrow> index \<Rightarrow> error + scored list" where
  "similarities_of E includeRanges queryEmbedding queryConcepts [] = Inr []"
| "similarities_of E includeRanges queryEmbedding queryConcepts ((docId, doc) # rest) =
     (if \<not> includeRanges \<and> doc_cells doc
      then similarities_of E includeRanges queryEmbedding queryConcepts rest
      else
        case calculateCosineSimilarity queryEmbedding (s_embedding doc) of
          Inl e \<Rightarrow> Inl e
        | Inr similarity \<Rightarrow>
            let conceptMatch = calculateConceptMatch (s_labels doc) queryConcepts;
                formulaComplexity =
                  (case doc_parsedFormula doc of
                     Some parsedFormula \<Rightarrow> detectFormulaComplexity (Some parsedFormula)
                   | None \<Rightarrow> Num 0);
                sheetImportance = calculateSheetImportance (doc_sheetName doc);
                finalScore = calculateFinalScore E similarity conceptMatch formulaComplexity sheetImportance
            in case similarities_of E includeRanges queryEmbedding queryConcepts rest of
                 Inl e \<Rightarrow> Inl e
               | Inr similarities \<Rightarrow>
                   Inr (\<lparr>sc_docId = docId, sc_doc = doc, sc_similarity = similarity,
                         sc_conceptMatch = conceptMatch, sc_formulaComplexity = formulaComplexity,
                         sc_sheetImportance = sheetImportance, sc_finalScore = finalScore\<rparr>
                        # similarities))"

record search_result =
  res_id :: string
  res_concept :: string
  res_sheet :: string
  res_range :: string
  res_formula :: "string option"
  res_value :: "string option"
  res_explanation :: string
  res_relevance :: number
  res_reasons :: "string list"
  res_labels :: "string list"
  res_type :: string

definition getPrimaryConcept :: "stored \<Rightarrow> string" where
  "getPrimaryConcept doc =
     (case s_labels doc of
        label # labels \<Rightarrow> label
      | [] \<Rightarrow>
          if truthy (doc_headers_column doc) then template (doc_headers_column doc)
          else if truthy (doc_formula doc) then ''Formula''
          else ''Data'')"

definition location_range :: "stored \<Rightarrow> string" where
  "location_range doc =
     (case s_source doc of
        RangeDoc r \<Rightarrow> string_of_nat (r_startRow r) @ ''-'' @ string_of_nat (r_endRow r)
      | CellDoc c \<Rightarrow> string_of_nat (c_row c) @ '':'' @ string_of_nat (c_column c))"

definition null_if_falsy :: "string option \<Rightarrow> string option" where
  "null_if_falsy x = (if truthy x then x else None)"

text \<open>
  \<open>generateSearchExplanation\<close> of the label service, as the search service calls it: on the
  stored document, which has a formula but neither a \<open>concept\<close> nor a \<open>location\<close> field.
\<close>

definition generateSearchExplanation :: "stored \<Rightarrow> string" where
  "generateSearchExplanation doc =
     (let explanations =
        (case doc_formula doc of
           None \<Rightarrow> []
         | Some f \<Rightarrow>
             if f = [] then []
             else if includes_str f ''SUM'' then [''contains SUM formula'']
             else if includes_str f ''/'' then [''contains division calculation'']
             else if includes_str f ''VLOOKUP'' then [''contains lookup formula'']
             else [])
      in if join '', '' explanations = [] then ''semantic similarity match''
         else join '', '' explanations)"

definition generateReasons :: "stored \<Rightarrow> string \<Rightarrow> real \<Rightarrow> real \<Rightarrow> string list" where
  "generateReasons doc query similarity conceptMatch =
     (if similarity > 0.8 then [''high semantic similarity'']
      else if similarity > 0.6 then [''good semantic similarity''] else [])
     @ (if conceptMatch > 0.5 then [''concept match''] else [])
     @ (case doc_formula doc of
          None \<Rightarrow> []
        | Some f \<Rightarrow>
            if f = [] then []
            else if includes_str f ''SUM'' then [''contains SUM formula'']
            else if includes_str f ''/'' then [''contains division calculation'']
            else [])
     @ (if truthy (doc_headers_column doc)
        then (let header = toLowerCase (template (doc_headers_column doc));
                  queryLower = toLowerCase query
              in if includes_str header queryLower \<or> includes_str queryLower header
                 then [''header matches query''] else [])
        else [])"

definition formatSearchResult :: "string \<Rightarrow> scored \<Rightarrow> search_result" where
  "formatSearchResult query result =
     (let doc = sc_doc result in
      \<lparr>res_id = doc_id doc,
       res_concept = getPrimaryConcept doc,
       res_sheet = doc_sheetName doc,
       res_range = location_range doc,
       res_formula = null_if_falsy (doc_formula doc),
       res_value = null_if_falsy (doc_formattedValue doc),
       res_explanation = generateSearchExplanation doc,
       res_relevance = sc_finalScore result,
       res_reasons = generateReasons doc query (sc_similarity result) (sc_conceptMatch result),
       res_labels = s_labels doc,
       res_type = (if doc_cells doc then ''range'' else ''cell'')\<rparr>)"

text \<open>
  \<open>search\<close>: the empty index is answered before any provider is asked. The query embedding
  is requested from the provider, whose failure ends the call.
\<close>

definition search ::
  "('p, 'l) services \<Rightarrow> env \<Rightarrow> ('p, 'l) world \<Rightarrow> string \<Rightarrow> options
     \<Rightarrow> (error + search_result list) \<times> ('p, 'l) world" where
  "search S E w query opts =
     (let topK = topK_of E opts; includeRanges = includeRanges_of opts in
      if length (w_index w) = 0 then (Inr [], w)
      else
        case generateEmbedding S (w_embeddings w) query ''query'' of
          (Inl e, p') \<Rightarrow> (Inl e, w\<lparr>w_embeddings := p'\<rparr>)
        | (Inr queryEmbedding, p') \<Rightarrow>
            let queryConcepts = detectQueryConcepts query in
            case similarities_of E includeRanges queryEmbedding queryConcepts (w_index w) of
              Inl e \<Rightarrow> (Inl e, w\<lparr>w_embeddings := p'\<rparr>)
            | Inr similarities \<Rightarrow>
                let sorted_sims =
                      sort_by (\<lambda>a b. sort_order (number_sub (sc_finalScore b) (sc_finalScore a)))
                              similarities;
                    topResults = slice0 topK sorted_sims
                in (Inr (map (formatSearchResult query) topResults), w\<lparr>w_embeddings := p'\<rparr>))"

subsection \<open>Keyword search\<close>

text \<open>
  \<open>query.toLowerCase().split(/\s+/)\<close>: the pieces between the runs of white space. A query
  that starts or ends with white space has an empty first or last piece, and the empty
  query has one empty piece.
\<close>

definition is_space :: "char \<Rightarrow> bool" where
  "is_space c = ((of_char c :: nat) \<in> {9, 10, 11, 12, 13, 32})"

fun split_from :: "string \<Rightarrow> bool \<Rightarrow> string \<Rightarrow> string list" where
  "split_from cur in_space [] = [rev cur]"
| "split_from cur in_space (c # cs) =
     (if is_space c
      then (if in_space then split_from [] True cs else rev cur # split_from [] True cs)
      else split_from (c # cur) False cs)"

definition split_spaces :: "string \<Rightarrow> string list" where
  "split_spaces s = split_from [] False s"

record keyword_hit =
  kh_docId :: string
  kh_doc :: stored
  kh_score :: real
  kh_matches :: "string list"

text \<open>
  The matches of one text field: for each query term the field contains, the weight that
  is added to the score and the description that is recorded.
\<close>

definition field_matches :: "string list \<Rightarrow> real \<Rightarrow> string \<Rightarrow> string \<Rightarrow> (real \<times> string) list" where
  "field_matches queryTerms weight what field_text =
     map (\<lambda>t. (weight, what @ '' '' @ [CHR 0x22] @ t @ [CHR 0x22]))
         (filter (\<lambda>t. includes_str (toLowerCase field_text) t) queryTerms)"

definition optional_field_matches ::
  "string list \<Rightarrow> real \<Rightarrow> string \<Rightarrow> string option \<Rightarrow> (real \<times> string) list" where
  "optional_field_matches queryTerms weight what field =
     (if truthy field then field_matches queryTerms weight what (template field) else [])"

definition keyword_matches :: "string list \<Rightarrow> stored \<Rightarrow> (real \<times> string) list" where
  "keyword_matches queryTerms doc =
     optional_field_matches queryTerms 2 ''header contains'' (doc_headers_column doc)
     @ optional_field_matches queryTerms 1.5 ''row header contains'' (doc_headers_row doc)
     @ optional_field_matches queryTerms 1 ''value contains'' (doc_formattedValue doc)
     @ optional_field_matches queryTerms 1.5 ''formula contains'' (doc_formula doc)
     @ concat (map (\<lambda>label. field_matches queryTerms 1.5 ''label matches'' label) (s_labels doc))"

definition keyword_score :: "string list \<Rightarrow> stored \<Rightarrow> real" where
  "keyword_score queryTerms doc = fold (\<lambda>m score. score + fst m) (keyword_matches queryTerms doc) 0"

fun keyword_results :: "bool \<Rightarrow> string list \<Rightarrow> index \<Rightarrow> keyword_hit list" where
  "keyword_results includeRanges queryTerms [] = []"
| "keyword_results includeRanges queryTerms ((docId, doc) # rest) =
     (if \<not> includeRanges \<and> doc_cells doc then keyword_results includeRanges queryTerms rest
      else if keyword_score queryTerms doc > 0
      then \<lparr>kh_docId = docId, kh_doc = doc, kh_score = keyword_score queryTerms doc,
            kh_matches = map snd (keyword_matches queryTerms doc)\<rparr>
           # keyword_results includeRanges queryTerms rest
      else keyword_results includeRanges queryTerms rest)"

definition formatKeywordResult :: "string \<Rightarrow> keyword_hit \<Rightarrow> search_result" where
  "formatKeywordResult query result =
     (let doc = kh_doc result in
      \<lparr>res_id = doc_id doc,
       res_concept = getPrimaryConcept doc,
       res_sheet = doc_sheetName doc,
       res_range = location_range doc,
       res_formula = null_if_falsy (doc_formula doc),
       res_value = null_if_falsy (doc_formattedValue doc),
       res_explanation = ''Keyword matches: '' @ join '', '' (kh_matches result),
       res_relevance = Num (kh_score result / 10),
       res_reasons = kh_matches result,
       res_labels = s_labels doc,
       res_type = (if doc_cells doc then ''range'' else ''cell'')\<rparr>)"

text \<open>
  \<open>keywordSearch\<close> asks no provider and has no statement that throws on a document of the
  shapes above, so it is a function of the index alone.
\<close>

definition keywordSearch :: "env \<Rightarrow> index \<Rightarrow> string \<Rightarrow> options \<Rightarrow> search_result list" where
  "keywordSearch E idx query opts =
     (let topK = topK_of E opts; includeRanges = includeRanges_of opts in
      if length idx = 0 then []
      else
        let queryTerms = split_spaces (toLowerCase query);
            results = keyword_results includeRanges queryTerms idx;
            sorted_results = sort_by (\<lambda>a b. kh_score b - kh_score a) results;
            topResults = slice0 topK sorted_results
        in map (formatKeywordResult query) topResults)"

section \<open>Notions the properties are stated with\<close>

text \<open>The Euclidean norm of a vector, which the cosine computes for both arguments.\<close>

definition vector_norm :: "real list \<Rightarrow> real" where
  "vector_norm a = sqrt (\<Sum>x\<leftarrow>a. x * x)"

text \<open>
  \<open>precedes ids x y\<close>: in the list \<open>ids\<close>, an occurrence of \<open>x\<close> stands before an occurrence
  of \<open>y\<close>. With the identifiers of the index in iteration order, this is the order in which
  the documents were first inserted.
\<close>

fun precedes :: "'a list \<Rightarrow> 'a \<Rightarrow> 'a \<Rightarrow> bool" where
  "precedes [] x y = False"
| "precedes (z # zs) x y = ((z = x \<and> y \<in> set zs) \<or> precedes zs x y)"

definition index_ids :: "index \<Rightarrow> string list" where
  "index_ids idx = map (\<lambda>(docId, doc). doc_id doc) idx"


text \<open>
  The index as the service keeps it: the keys are distinct, and every document is stored
  under its own identifier.
\<close>

definition index_wf :: "index \<Rightarrow> bool" where
  "index_wf idx = (distinct (map fst idx) \<and> list_all (\<lambda>(docId, doc). doc_id doc = docId) idx)"


section \<open>The cosine in double precision arithmetic\<close>

text \<open>
  A double is a finite number, one of the two infinities, or \<open>NaN\<close>. The two zeros are one
  value here: the program compares a norm with \<open>0\<close> by \<open>===\<close>, which holds for both, and it
  divides by a product of square roots only, which is never \<open>-0\<close>.
\<close>

datatype double = Dbl real | Infinity | NegInfinity | NaNd

text \<open>
  Rounding to the nearest double, ties to the even significand, as IEEE 754 prescribes for
  \<open>+\<close>, \<open>*\<close>, \<open>/\<close> and the square root. A nonzero \<open>x\<close> with \<open>2\<^sup>e \<le> |x| < 2\<^sup>e\<^sup>+\<^sup>1\<close> and \<open>e \<ge> -1022\<close>
  is rounded to the nearest multiple of \<open>2\<^sup>e\<^sup>-\<^sup>5\<^sup>2\<close>, which gives a significand of 53 bits;
  below \<open>2\<^sup>-\<^sup>1\<^sup>0\<^sup>2\<^sup>2\<close> the multiples of \<open>2\<^sup>-\<^sup>1\<^sup>0\<^sup>7\<^sup>4\<close> are the subnormal numbers and zero
  (underflow). A result of magnitude \<open>2\<^sup>1\<^sup>0\<^sup>2\<^sup>4\<close> or more is an infinity (overflow).
\<close>

definition round_even :: "real \<Rightarrow> int" where
  "round_even y =
     (let f = \<lfloor>y\<rfloor>; d = y - of_int f in
      if d < 1 / 2 then f else if 1 / 2 < d then f + 1 else if even f then f else f + 1)"

definition binade :: "real \<Rightarrow> int" where
  "binade x = \<lfloor>log 2 \<bar>x\<bar>\<rfloor>"

definition round_at :: "int \<Rightarrow> real \<Rightarrow> real" where
  "round_at e x = of_int (round_even (x / 2 powr of_int (e - 52))) * 2 powr of_int (e - 52)"

definition to_double :: "real \<Rightarrow> double" where
  "to_double x =
     (if x = 0 then Dbl 0
      else let r = round_at (max (binade x) (- 1022)) x in
           if 2 ^ 1024 \<le> \<bar>r\<bar> then (if 0 < x then Infinity else NegInfinity) else Dbl r)"

text \<open>
  The operations of the loop on doubles. On finite operands the exact result is rounded;
  an infinity or \<open>NaN\<close> is carried on as IEEE 754 prescribes (\<open>\<infinity> - \<infinity>\<close>, \<open>0 \<times> \<infinity>\<close>, \<open>\<infinity> / \<infinity>\<close>,
  \<open>0 / 0\<close> and the square root of a negative number are \<open>NaN\<close>).
\<close>

fun double_sgn :: "double \<Rightarrow> real" where
  "double_sgn (Dbl x) = sgn x"
| "double_sgn Infinity = 1"
| "double_sgn NegInfinity = - 1"
| "double_sgn NaNd = 0"

definition double_add :: "double \<Rightarrow> double \<Rightarrow> double" where
  "double_add a b =
     (case (a, b) of
        (Dbl x, Dbl y) \<Rightarrow> to_double (x + y)
      | _ \<Rightarrow>
          if a = NaNd \<or> b = NaNd then NaNd
          else if (a = Infinity \<and> b = NegInfinity) \<or> (a = NegInfinity \<and> b = Infinity) then NaNd
          else if a = Infinity \<or> b = Infinity then Infinity
          else NegInfinity)"

definition double_mul :: "double \<Rightarrow> double \<Rightarrow> double" where
  "double_mul a b =
     (case (a, b) of
        (Dbl x, Dbl y) \<Rightarrow> to_double (x * y)
      | _ \<Rightarrow>
          if a = NaNd \<or> b = NaNd \<or> a = Dbl 0 \<or> b = Dbl 0 then NaNd
          else if 0 < double_sgn a * double_sgn b then Infinity
          else NegInfinity)"

definition double_div :: "double \<Rightarrow> double \<Rightarrow> double" where
  "double_div a b =
     (case (a, b) of
        (Dbl x, Dbl y) \<Rightarrow>
          if y = 0 then (if x = 0 then NaNd else if 0 < x then Infinity else NegInfinity)
          else to_double (x / y)
      | (Dbl x, _) \<Rightarrow> if b = NaNd then NaNd else Dbl 0
      | (_, Dbl y) \<Rightarrow>
          if a = NaNd then NaNd
          else if 0 < double_sgn a * (if 0 \<le> y then 1 else - 1) then Infinity
          else NegInfinity
      | _ \<Rightarrow> NaNd)"

fun double_sqrt :: "double \<Rightarrow> double" where
  "double_sqrt (Dbl x) = (if x < 0 then NaNd else to_double (sqrt x))"
| "double_sqrt Infinity = Infinity"
| "double_sqrt NegInfinity = NaNd"
| "double_sqrt NaNd = NaNd"

text \<open>
  \<open>calculateCosineSimilarity\<close> on doubles: the same statements in the same order, with the
  operations above. The components of the vectors are finite numbers.
\<close>

definition accumulate_double :: "real list \<Rightarrow> real list \<Rightarrow> double \<times> double \<times> double" where
  "accumulate_double a b =
     fold (\<lambda>(x, y) (dotProduct, normA, normB).
             (double_add dotProduct (double_mul (Dbl x) (Dbl y)),
              double_add normA (double_mul (Dbl x) (Dbl x)),
              double_add normB (double_mul (Dbl y) (Dbl y))))
          (zip a b) (Dbl 0, Dbl 0, Dbl 0)"

definition calculateCosineSimilarity_double :: "real list \<Rightarrow> real list \<Rightarrow> error + double" where
  "calculateCosineSimilarity_double a b =
     (if length a \<noteq> length b then Inl DimensionMismatch
      else case accumulate_double a b of (dotProduct, sqA, sqB) \<Rightarrow>
        let normA = double_sqrt sqA; normB = double_sqrt sqB in
        if normA = Dbl 0 \<or> normB = Dbl 0 then Inr (Dbl 0)
        else Inr (double_div dotProduct (double_mul normA normB)))"

section \<open>Example documents and providers\<close>

text \<open>
  A cell of a sheet with a displayed text and nothing else, a language model that always
  fails, and two embedding providers: one that embeds every text as the vector \<open>[1]\<close>, and
  one that counts its requests and fails on request number \<open>n\<close> only (the first request
  has the number 0).
\<close>

definition plain_cell :: "string \<Rightarrow> string \<Rightarrow> string \<Rightarrow> cell" where
  "plain_cell ident sheet shown =
     \<lparr>c_id = ident, c_sheetName = sheet, c_row = 1, c_column = 1,
      c_rawValue = Some shown, c_formattedValue = Some shown, c_formula = None,
      c_parsedFormula = None, c_headers = None\<rparr>"

definition no_language_model :: "unit \<Rightarrow> cell \<Rightarrow> (error + label_result) \<times> unit" where
  "no_language_model l c = (Inl (ProviderError ''no answer''), l)"

definition constant_services :: "(unit, unit) services" where
  "constant_services =
     \<lparr>generateEmbedding = (\<lambda>p text kind. (Inr [1], p)),
      labelInitialized = False,
      generateLLMLabels = no_language_model\<rparr>"


definition default_env :: env where
  "default_env =
     \<lparr>env_DEFAULT_TOP_K = None, env_SEMANTIC_WEIGHT = None, env_CONCEPT_MATCH_WEIGHT = None,
      env_FORMULA_COMPLEXITY_WEIGHT = None, env_SHEET_IMPORTANCE_WEIGHT = None\<rparr>"

definition empty_world :: "'p \<Rightarrow> ('p, unit) world" where
  "empty_world p = \<lparr>w_index = [], w_embeddings = p, w_labels = ()\<rparr>"

text \<open>
  Three cells of the sheet \<open>Sales\<close>, which show \<open>Widgets\<close>, \<open>Revenue\<close> and \<open>Gadgets\<close>, and the
  state of the service after they were added in this order.
\<close>

definition sales_cells :: "cell list" where
  "sales_cells =
     [plain_cell ''s_1_1'' ''Sales'' ''Widgets'', plain_cell ''s_2_1'' ''Sales'' ''Revenue'',
      plain_cell ''s_3_1'' ''Sales'' ''Gadgets'']"

definition sales_world :: "(unit, unit) world" where
  "sales_world = snd (addToIndex constant_services (empty_world ()) sales_cells)"





text \<open>
  A provider wrapped so that it records every embedding request, as a test double
  records its calls. The wrapped provider answers as the original does.
\<close>

definition recording :: "('p, 'l) services \<Rightarrow> ('p \<times> (string \<times> string) list, 'l) services" where
  "recording S =
     \<lparr>generateEmbedding =
        (\<lambda>(p, requests) text kind.
           case generateEmbedding S p text kind of
             (r, p') \<Rightarrow> (r, (p', requests @ [(text, kind)]))),
      labelInitialized = labelInitialized S,
      generateLLMLabels = generateLLMLabels S\<rparr>"

text \<open>
  A cell with a displayed text and the given context values around it, a cell with both
  headers and a context, and a range of two cells.
\<close>

definition cell_with_context :: "string list \<Rightarrow> cell" where
  "cell_with_context vs =
     \<lparr>c_id = ''sheet1_3_3'', c_sheetName = ''Sheet1'', c_row = 3, c_column = 3,
      c_rawValue = Some ''42'', c_formattedValue = Some ''42'', c_formula = None,
      c_parsedFormula = None,
      c_headers = Some \<lparr>h_row = None, h_column = None,
                         h_context = map (\<lambda>v. \<lparr>ctx_value = v, ctx_row = 2, ctx_column = 2,
                                                ctx_distance = 2\<rparr>) vs\<rparr>\<rparr>"

definition headed_cell :: cell where
  "headed_cell =
     \<lparr>c_id = ''plan_2_2'', c_sheetName = ''Plan'', c_row = 2, c_column = 2,
      c_rawValue = Some ''5000'', c_formattedValue = Some ''5000'', c_formula = None,
      c_parsedFormula = None,
      c_headers = Some \<lparr>h_row = Some ''North'', h_column = Some ''Q1'',
                         h_context = [\<lparr>ctx_value = ''Q2'', ctx_row = 1, ctx_column = 3,
                                       ctx_distance = 2\<rparr>]\<rparr>\<rparr>"


section \<open>Properties of the cosine\<close>

lemma fold_accumulate:
  "length a = length b \<Longrightarrow>
   fold (\<lambda>(x, y) (d, na, nb). (d + x * y, na + x * x, nb + y * y)) (zip a b) (d0, a0, b0) =
     (d0 + (\<Sum>(x, y)\<leftarrow>zip a b. x * y), a0 + (\<Sum>x\<leftarrow>a. x * x), b0 + (\<Sum>y\<leftarrow>b. y * y))"
proof (induction a b arbitrary: d0 a0 b0 rule: list_induct2)
  case Nil
  then show ?case by simp
next
  case (Cons x xs y ys)
  then show ?case by (simp add: algebra_simps)
qed

lemma accumulate_eq:
  "length a = length b \<Longrightarrow>
   accumulate a b = ((\<Sum>(x, y)\<leftarrow>zip a b. x * y), (\<Sum>x\<leftarrow>a. x * x), (\<Sum>y\<leftarrow>b. y * y))"
  unfolding accumulate_def by (simp add: fold_accumulate)

lemma sum_squares_nonneg: "0 \<le> (\<Sum>x\<leftarrow>a. x * x)" for a :: "real list"
  by (induction a) simp_all

lemma sum_squares_zero_iff: "(\<Sum>x\<leftarrow>a. x * x) = 0 \<longleftrightarrow> (\<forall>x\<in>set a. x = 0)" for a :: "real list"
proof (induction a)
  case Nil
  then show ?case by simp
next
  case (Cons x xs)
  have "0 \<le> x * x" by simp
  with sum_squares_nonneg [of xs] have "x * x + (\<Sum>x\<leftarrow>xs. x * x) = 0 \<longleftrightarrow> x * x = 0 \<and> (\<Sum>x\<leftarrow>xs. x * x) = 0"
    by (simp add: add_nonneg_eq_0_iff)
  with Cons show ?case by simp
qed

lemma vector_norm_zero_iff: "vector_norm a = 0 \<longleftrightarrow> (\<forall>x\<in>set a. x = 0)"
  by (simp add: vector_norm_def sum_squares_zero_iff)

lemma cosine_path_eq:
  "length a = length b \<Longrightarrow>
   cosine_path a b =
     (if vector_norm a = 0 \<or> vector_norm b = 0 then ReturnedZero
      else Divided (\<Sum>(x, y)\<leftarrow>zip a b. x * y) (vector_norm a * vector_norm b))"
  by (simp add: cosine_path_def accumulate_eq vector_norm_def Let_def)

text \<open>
  Claim C10. For two vectors of the same length of which at least one has norm zero (all
  its components are zero), \<open>calculateCosineSimilarity\<close> takes the early \<open>return 0\<close>; the
  division is reached only when both norms are nonzero, and then its divisor, the product
  of the norms, is nonzero.
\<close>

theorem cosine_zero_norm_returns_zero:
  assumes "length a = length b"
  shows "(vector_norm a = 0 \<longleftrightarrow> (\<forall>x\<in>set a. x = 0))
       \<and> (vector_norm a = 0 \<or> vector_norm b = 0 \<longrightarrow>
            cosine_path a b = ReturnedZero \<and> calculateCosineSimilarity a b = Inr 0)
       \<and> (\<forall>n d. cosine_path a b = Divided n d \<longrightarrow>
            vector_norm a \<noteq> 0 \<and> vector_norm b \<noteq> 0 \<and> d = vector_norm a * vector_norm b \<and> d \<noteq> 0)"
proof (intro conjI)
  show "vector_norm a = 0 \<longleftrightarrow> (\<forall>x\<in>set a. x = 0)" by (rule vector_norm_zero_iff)
  show "vector_norm a = 0 \<or> vector_norm b = 0 \<longrightarrow>
          cosine_path a b = ReturnedZero \<and> calculateCosineSimilarity a b = Inr 0"
    using assms by (simp add: cosine_path_eq calculateCosineSimilarity_def)
  show "\<forall>n d. cosine_path a b = Divided n d \<longrightarrow>
          vector_norm a \<noteq> 0 \<and> vector_norm b \<noteq> 0 \<and> d = vector_norm a * vector_norm b \<and> d \<noteq> 0"
    using assms by (auto simp add: cosine_path_eq split: if_splits)
qed

theorem cosine_zero_norm_witness:
  "calculateCosineSimilarity [0, 0] [3, 4] = Inr 0 \<and> cosine_path [0, 0] [3, 4] = ReturnedZero
   \<and> cosine_path [1] [1] = Divided 1 1 \<and> vector_norm [1] \<noteq> 0"
proof -
  have len: "length [0, 0 :: real] = length [3, 4 :: real]" by simp
  have zero: "vector_norm [0, 0] = 0" by (simp add: vector_norm_def)
  have len1: "length [1 :: real] = length [1 :: real]" by simp
  have path: "cosine_path [1] [1] = Divided 1 1" by (simp add: cosine_path_def accumulate_def)
  from cosine_zero_norm_returns_zero [OF len] zero cosine_zero_norm_returns_zero [OF len1] path
  show ?thesis by simp
qed

section \<open>Properties of the heuristics\<close>

text \<open>
  Where the parsed formula has a complexity that is not negative, the score is a number
  between 0 and 1, with or without the boost of 0.3 for the complex functions; it is 0
  when there is no parsed formula, or one without a function list.
\<close>

lemma formula_complexity_none: "detectFormulaComplexity None = Num 0"
  by (simp add: detectFormulaComplexity_def)




text \<open>
  Claim C9. The claim is that the score of \<open>detectFormulaComplexity\<close> lies within \<open>[0,1]\<close>
  for every parsed formula. The object that \<open>parseFormula\<close> returns when parsing fails, and
  that the spreadsheet parser stores in the cell as it does any other, has an empty
  function list and no complexity. The guard of \<open>detectFormulaComplexity\<close> tests for a
  missing function list only, so this object passes it; \<open>undefined / 20\<close> is \<open>NaN\<close>, and so is
  the score, which is not within \<open>[0,1]\<close>.
\<close>

theorem formula_complexity_of_parse_failure:
  "detectFormulaComplexity (Some parseFormula_failure) = NaN
   \<and> \<not> (number_le (Num 0) (detectFormulaComplexity (Some parseFormula_failure))
          \<and> number_le (detectFormulaComplexity (Some parseFormula_failure)) (Num 1))"
  by (simp add: detectFormulaComplexity_def parseFormula_failure_def Let_def number_min_def
        number_div_def)

lemma length_filter_distinct:
  assumes "distinct xs"
  shows "length (filter (\<lambda>x. x \<in> A) xs) = card (set xs \<inter> A)"
proof -
  have "length (filter (\<lambda>x. x \<in> A) xs) = card (set (filter (\<lambda>x. x \<in> A) xs))"
    using assms by (simp only: distinct_card distinct_filter)
  also have "set (filter (\<lambda>x. x \<in> A) xs) = set xs \<inter> A" by auto
  finally show ?thesis .
qed

text \<open>
  Claim C4, as stated: the concept match is the size of the intersection of the two lists,
  as sets, over the larger of the two lengths. It fails on a label list that repeats a
  label: the program counts every entry of the label list that occurs among the query
  concepts.
\<close>

theorem concept_match_set_formula_counterexample:
  "calculateConceptMatch [''revenue'', ''revenue''] [''revenue'']
     \<noteq> real (card (set [''revenue'', ''revenue''] \<inter> set [''revenue'']))
         / real (max (length [''revenue'', ''revenue'']) (length [''revenue'']))"
  by (simp add: calculateConceptMatch_def)

text \<open>
  Claim C4, amended. The concept match is the number of entries of the label list that
  occur among the query concepts, over the larger of the two lengths; for a label list
  without repetitions that is the size of the intersection over the larger length. It is
  0 when either list is empty, and 1 for the labels \<open>[profitability]\<close> against the query
  concepts \<open>[profitability]\<close>.
\<close>

theorem concept_match_formula:
  "calculateConceptMatch labels queryConcepts =
     real (length (filter (\<lambda>c. c \<in> set queryConcepts) labels))
       / real (max (length labels) (length queryConcepts))
   \<and> (distinct labels \<longrightarrow>
        calculateConceptMatch labels queryConcepts =
          real (card (set labels \<inter> set queryConcepts))
            / real (max (length labels) (length queryConcepts)))
   \<and> (labels = [] \<or> queryConcepts = [] \<longrightarrow> calculateConceptMatch labels queryConcepts = 0)
   \<and> calculateConceptMatch [''profitability''] [''profitability''] = 1"
proof -
  have general: "calculateConceptMatch ls qs =
      real (length (filter (\<lambda>c. c \<in> set qs) ls)) / real (max (length ls) (length qs))" for ls qs
    by (cases "ls = []"; cases "qs = []") (simp_all add: calculateConceptMatch_def)
  then show ?thesis
    by (auto simp add: length_filter_distinct calculateConceptMatch_def)
qed

theorem concept_match_formula_witness:
  "calculateConceptMatch [''revenue'', ''cost''] [''revenue'']
     = real (card (set [''revenue'', ''cost''] \<inter> set [''revenue''])) / 2
   \<and> calculateConceptMatch [''revenue'', ''cost''] [''revenue''] = 1 / 2
   \<and> calculateConceptMatch [] [''revenue''] = 0"
  using concept_match_formula [of "[''revenue'', ''cost'']" "[''revenue'']"]
    concept_match_formula [of "[]" "[''revenue'']"]
  by simp

text \<open>
  Claim C6, as stated: the text blob of the concept detector holds at most the first three
  context values, so that a context value beyond the third never changes the detected
  concepts. It fails: \<open>detectBusinessConcepts\<close> joins all context values into the blob. Two
  cells that agree on their first three context values differ in their concepts when the
  fourth value of one of them is \<open>Revenue\<close>.
\<close>

theorem concepts_context_beyond_third_counterexample:
  "map ctx_value (take 3 (headers_context (cell_with_context [''North'', ''South'', ''East'', ''Revenue''])))
     = map ctx_value (take 3 (headers_context (cell_with_context [''North'', ''South'', ''East''])))
   \<and> detectBusinessConcepts (cell_with_context [''North'', ''South'', ''East'', ''Revenue'']) = [''revenue'']
   \<and> detectBusinessConcepts (cell_with_context [''North'', ''South'', ''East'']) = []"
  by code_simp

text \<open>
  Claim C6, amended. The text blob of the concept detector is built only from the
  formatted or raw value, the column header, the row header and all context values, in
  their order: two cells that agree on these texts and on their formula have the same
  detected concepts, whatever their other fields are.
\<close>

theorem concepts_depend_on_texts:
  assumes "c_formattedValue c = c_formattedValue c'"
    and "c_rawValue c = c_rawValue c'"
    and "headers_column c = headers_column c'"
    and "headers_row c = headers_row c'"
    and "map ctx_value (headers_context c) = map ctx_value (headers_context c')"
    and "c_formula c = c_formula c'"
  shows "detectBusinessConcepts c = detectBusinessConcepts c'"
proof -
  have "map (\<lambda>e. Some (ctx_value e)) (headers_context c) = map Some (map ctx_value (headers_context c))"
    by simp
  also have "\<dots> = map Some (map ctx_value (headers_context c'))" by (simp only: assms(5))
  also have "\<dots> = map (\<lambda>e. Some (ctx_value e)) (headers_context c')" by simp
  finally have "headerText c = headerText c'" by (simp add: headerText_def assms(3,4))
  then have "allText c = allText c'" by (simp add: allText_def assms(1,2))
  moreover have "formula_matches c ps = formula_matches c' ps" for ps
    by (simp add: formula_matches_def assms(6))
  ultimately show ?thesis by (simp add: detectBusinessConcepts_def)
qed

theorem concepts_depend_on_texts_witness:
  "detectBusinessConcepts (cell_with_context [''North'', ''South'', ''East'', ''Revenue''])
     = detectBusinessConcepts
         ((cell_with_context [''North'', ''South'', ''East'', ''Revenue''])
            \<lparr>c_id := ''other_9_9'', c_sheetName := ''Other'', c_row := 9, c_column := 9\<rparr>)"
  by (rule concepts_depend_on_texts)
     (simp_all add: cell_with_context_def headers_column_def headers_row_def headers_context_def)

section \<open>Properties of \<open>sort\<close> and \<open>slice\<close>\<close>

lemma set_insert_by: "set (insert_by cmp x ys) = insert x (set ys)"
  by (induction ys) auto

lemma set_sort_by: "set (sort_by cmp xs) = set xs"
  unfolding sort_by_def by (induction xs) (simp_all add: set_insert_by)



lemma set_slice0: "set (slice0 k xs) \<subseteq> set xs"
  unfolding slice0_def by (auto dest: in_set_takeD)










lemma precedes_in_set: "precedes zs x y \<Longrightarrow> x \<in> set zs \<and> y \<in> set zs"
  by (induction zs) auto

section \<open>Properties of the search service\<close>

text \<open>
  Claim C2. On an empty index, \<open>search\<close> returns the empty list without an error and
  without asking a provider, and \<open>keywordSearch\<close> returns the empty list, for every query
  and all options.
\<close>

theorem empty_index_gives_empty_results:
  "search S E \<lparr>w_index = [], w_embeddings = p, w_labels = l\<rparr> query opts
     = (Inr [], \<lparr>w_index = [], w_embeddings = p, w_labels = l\<rparr>)
   \<and> keywordSearch E [] query opts = []"
  by (simp add: search_def keywordSearch_def)

subsection \<open>The example index, evaluated\<close>

lemma sales_index:
  "w_index sales_world =
     [(''s_1_1'', \<lparr>s_source = CellDoc (plain_cell ''s_1_1'' ''Sales'' ''Widgets''), s_embedding = [1],
                   s_labels = [''data''], s_labelConfidence = Overall (1 / 2),
                   s_labelMethod = ''basic'', s_labelExplanation = ''general data''\<rparr>),
      (''s_2_1'', \<lparr>s_source = CellDoc (plain_cell ''s_2_1'' ''Sales'' ''Revenue''), s_embedding = [1],
                   s_labels = [''revenue''], s_labelConfidence = Overall (4 / 5),
                   s_labelMethod = ''heuristic'', s_labelExplanation = ''contains revenue-related terms''\<rparr>),
      (''s_3_1'', \<lparr>s_source = CellDoc (plain_cell ''s_3_1'' ''Sales'' ''Gadgets''), s_embedding = [1],
                   s_labels = [''data''], s_labelConfidence = Overall (1 / 2),
                   s_labelMethod = ''basic'', s_labelExplanation = ''general data''\<rparr>)]"
  by code_simp








subsection \<open>Semantic search\<close>











subsection \<open>Keyword search\<close>

text \<open>The keyword score of a document is the sum of the weights of its matches.\<close>

lemma fold_weights: "fold (\<lambda>m score. score + fst m) ms s = s + (\<Sum>m\<leftarrow>ms. fst m)"
  for s :: real
  by (induction ms arbitrary: s) simp_all

lemma keyword_score_sum: "keyword_score queryTerms doc = (\<Sum>m\<leftarrow>keyword_matches queryTerms doc. fst m)"
  by (simp add: keyword_score_def fold_weights)

lemma keyword_results_hits:
  "h \<in> set (keyword_results ir terms idx) \<Longrightarrow>
   (kh_docId h, kh_doc h) \<in> set idx \<and> 0 < keyword_score terms (kh_doc h)"
proof (induction idx)
  case Nil
  then show ?case by simp
next
  case (Cons entry rest)
  obtain docId doc where "entry = (docId, doc)" by (cases entry)
  with Cons show ?case by (auto split: if_splits)
qed

text \<open>
  Claim C3. A document of the index whose keyword score for the terms of the query is 0
  does not appear in the result list of \<open>keywordSearch\<close>: no result carries its
  identifier. The identifiers of the index are distinct, as the keys of a \<open>Map\<close> are.
\<close>

theorem zero_score_not_in_keyword_results:
  assumes "(k, d) \<in> set idx"
    and "keyword_score (split_spaces (toLowerCase query)) d = 0"
    and "distinct (index_ids idx)"
  shows "doc_id d \<notin> res_id ` set (keywordSearch E idx query opts)"
proof
  let ?terms = "split_spaces (toLowerCase query)"
  assume "doc_id d \<in> res_id ` set (keywordSearch E idx query opts)"
  then obtain r where r: "r \<in> set (keywordSearch E idx query opts)" and id: "res_id r = doc_id d"
    by auto
  from r obtain h where h: "h \<in> set (keyword_results (includeRanges_of opts) ?terms idx)"
    and rh: "r = formatKeywordResult query h"
    using set_slice0 [of "topK_of E opts"
        "sort_by (\<lambda>a b. kh_score b - kh_score a) (keyword_results (includeRanges_of opts) ?terms idx)"]
    by (auto simp add: keywordSearch_def Let_def set_sort_by split: if_splits)
  from keyword_results_hits [OF h] have inidx: "(kh_docId h, kh_doc h) \<in> set idx"
    and pos: "0 < keyword_score ?terms (kh_doc h)" by simp_all
  from id rh have same: "doc_id (kh_doc h) = doc_id d" by (simp add: formatKeywordResult_def Let_def)
  from assms(3) have "inj_on (\<lambda>(docId, doc). doc_id doc) (set idx)"
    by (simp add: index_ids_def distinct_map)
  then have "(kh_docId h, kh_doc h) = (k, d)"
    using inidx assms(1) same by (auto simp add: inj_on_def)
  with pos assms(2) show False by simp
qed

lemma widgets_score:
  "keyword_score (split_spaces (toLowerCase ''revenue''))
     \<lparr>s_source = CellDoc (plain_cell ''s_1_1'' ''Sales'' ''Widgets''), s_embedding = [1],
      s_labels = [''data''], s_labelConfidence = Overall (1 / 2),
      s_labelMethod = ''basic'', s_labelExplanation = ''general data''\<rparr> = 0"
  by code_simp

theorem zero_score_not_in_keyword_results_witness:
  "''s_1_1'' \<notin> res_id ` set (keywordSearch default_env (w_index sales_world) ''revenue''
                                   \<lparr>o_topK = None, o_includeRanges = None\<rparr>)
   \<and> ''s_1_1'' \<in> set (index_ids (w_index sales_world))"
proof -
  let ?d = "\<lparr>s_source = CellDoc (plain_cell ''s_1_1'' ''Sales'' ''Widgets''), s_embedding = [1],
      s_labels = [''data''], s_labelConfidence = Overall (1 / 2),
      s_labelMethod = ''basic'', s_labelExplanation = ''general data''\<rparr>"
  have member: "(''s_1_1'', ?d) \<in> set (w_index sales_world)" by (simp add: sales_index)
  have ids: "index_ids (w_index sales_world) = [''s_1_1'', ''s_2_1'', ''s_3_1'']"
    by (simp add: sales_index index_ids_def doc_id_def plain_cell_def)
  then have "distinct (index_ids (w_index sales_world))" by simp
  from zero_score_not_in_keyword_results [OF member widgets_score this]
  show ?thesis by (simp add: ids doc_id_def plain_cell_def)
qed

section \<open>The index is keyed by the identifiers of its documents\<close>

text \<open>
  Ingestion stores every document under its own identifier and never repeats a key, so
  the identifiers of the documents of an index are distinct.
\<close>

lemma set_index_set: "fst ` set (index_set k v idx) = insert k (fst ` set idx)"
proof (induction idx)
  case Nil
  then show ?case by simp
next
  case (Cons entry rest)
  obtain k' v' where "entry = (k', v')" by (cases entry)
  with Cons.IH show ?case by (cases "k' = k") auto
qed

lemma index_set_wf:
  assumes "index_wf idx" and "doc_id v = k"
  shows "index_wf (index_set k v idx)"
  using assms
proof (induction idx)
  case Nil
  then show ?case by (simp add: index_wf_def)
next
  case (Cons entry rest)
  obtain k' v' where entry: "entry = (k', v')" by (cases entry)
  from Cons.prems(1) have rest: "index_wf rest" by (simp add: index_wf_def)
  show ?case
  proof (cases "k' = k")
    case True
    with Cons.prems entry show ?thesis by (simp add: index_wf_def)
  next
    case False
    have "k' \<notin> fst ` set (index_set k v rest)"
      using Cons.prems(1) entry False by (simp add: set_index_set index_wf_def)
    with Cons.IH [OF rest Cons.prems(2)] Cons.prems(1) entry False show ?thesis
      by (simp add: index_wf_def)
  qed
qed

lemma store_doc_id [simp]: "doc_id (store_doc src embedding labels) =
    (case src of CellDoc c \<Rightarrow> c_id c | RangeDoc r \<Rightarrow> r_id r)"
  by (simp add: doc_id_def store_doc_def)

lemma addToIndex_wf:
  "index_wf (w_index w) \<Longrightarrow> index_wf (w_index (snd (addToIndex S w docs)))"
proof (induction docs arbitrary: w)
  case Nil
  then show ?case by simp
next
  case (Cons doc docs)
  show ?case
  proof (cases "generateEmbedding S (w_embeddings w) (SearchService_generateEmbeddingText doc) ''cell''")
    case (Pair r p')
    show ?thesis
    proof (cases r)
      case (Inl e)
      with Pair Cons.prems show ?thesis by simp
    next
      case (Inr embedding)
      obtain labels l' where lab: "generateLabels S (w_labels w) doc = (labels, l')"
        by (cases "generateLabels S (w_labels w) doc")
      have "index_wf (index_set (c_id doc) (store_doc (CellDoc doc) embedding labels) (w_index w))"
        using Cons.prems by (rule index_set_wf) simp
      with Cons.IH Pair Inr lab show ?thesis by simp
    qed
  qed
qed

lemma addRangesToIndex_wf:
  "index_wf (w_index w) \<Longrightarrow> index_wf (w_index (snd (addRangesToIndex S w ranges)))"
proof (induction ranges arbitrary: w)
  case Nil
  then show ?case by simp
next
  case (Cons r ranges)
  show ?case
  proof (cases "generateEmbedding S (w_embeddings w) (SearchService_generateRangeEmbeddingText r) ''range''")
    case (Pair res p')
    show ?thesis
    proof (cases res)
      case (Inl e)
      with Pair Cons.prems show ?thesis by simp
    next
      case (Inr embedding)
      obtain labels l' where lab: "generateRangeLabels S (w_labels w) r = (labels, l')"
        by (cases "generateRangeLabels S (w_labels w) r")
      have "index_wf (index_set (r_id r) (store_doc (RangeDoc r) embedding labels) (w_index w))"
        using Cons.prems by (rule index_set_wf) simp
      with Cons.IH Pair Inr lab show ?thesis by simp
    qed
  qed
qed

lemma index_wf_ids: "index_wf idx \<Longrightarrow> index_ids idx = map fst idx \<and> distinct (index_ids idx)"
proof -
  assume wf: "index_wf idx"
  then have "\<forall>entry\<in>set idx. (case entry of (docId, doc) \<Rightarrow> doc_id doc) = fst entry"
    by (auto simp add: index_wf_def list_all_iff)
  then have "index_ids idx = map fst idx" by (simp add: index_ids_def)
  with wf show ?thesis by (simp add: index_wf_def)
qed

lemma index_wf_empty: "index_wf []"
  by (simp add: index_wf_def)

section \<open>Properties of the ingestion\<close>










subsection \<open>The embedding text that is sent\<close>

lemma recording_labels:
  "labelInitialized (recording S) = labelInitialized S"
  "generateLLMLabels (recording S) = generateLLMLabels S"
  by (simp_all add: recording_def)

lemma generateLabels_recording: "generateLabels (recording S) l c = generateLabels S l c"
  by (simp only: generateLabels_def recording_labels)

lemma addToIndex_requests:
  "addToIndex (recording S) \<lparr>w_index = idx, w_embeddings = (p, requests), w_labels = l\<rparr> docs = (res, w')
   \<Longrightarrow> \<exists>sent. snd (w_embeddings w') = requests @ sent
         \<and> prefix sent (map (\<lambda>d. (SearchService_generateEmbeddingText d, ''cell'')) docs)
         \<and> (res = Inr () \<longrightarrow> sent = map (\<lambda>d. (SearchService_generateEmbeddingText d, ''cell'')) docs)"
proof (induction docs arbitrary: idx p requests l)
  case Nil
  then have "w' = \<lparr>w_index = idx, w_embeddings = (p, requests), w_labels = l\<rparr>" by simp
  then have "snd (w_embeddings w') = requests @ []
      \<and> prefix [] (map (\<lambda>d. (SearchService_generateEmbeddingText d, ''cell'')) [])
      \<and> (res = Inr () \<longrightarrow> [] = map (\<lambda>d. (SearchService_generateEmbeddingText d, ''cell'')) [])"
    by simp
  then show ?case by (rule exI [of _ "[]"])
next
  case (Cons doc docs)
  let ?text = "SearchService_generateEmbeddingText doc"
  obtain r p' where emb: "generateEmbedding S p ?text ''cell'' = (r, p')"
    by (cases "generateEmbedding S p ?text ''cell''")
  then have rec: "generateEmbedding (recording S) (p, requests) ?text ''cell''
      = (r, (p', requests @ [(?text, ''cell'')]))"
    by (simp add: recording_def)
  show ?case
  proof (cases r)
    case (Inl e)
    have "addToIndex (recording S) \<lparr>w_index = idx, w_embeddings = (p, requests), w_labels = l\<rparr> (doc # docs)
        = (Inl e, \<lparr>w_index = idx, w_embeddings = (p', requests @ [(?text, ''cell'')]), w_labels = l\<rparr>)"
      using rec Inl by simp
    with Cons.prems have "res = Inl e"
      and "w' = \<lparr>w_index = idx, w_embeddings = (p', requests @ [(?text, ''cell'')]), w_labels = l\<rparr>"
      by (simp_all del: addToIndex.simps)
    then have "snd (w_embeddings w') = requests @ [(?text, ''cell'')]
      \<and> prefix [(?text, ''cell'')] (map (\<lambda>d. (SearchService_generateEmbeddingText d, ''cell'')) (doc # docs))
      \<and> (res = Inr () \<longrightarrow> [(?text, ''cell'')] = map (\<lambda>d. (SearchService_generateEmbeddingText d, ''cell'')) (doc # docs))"
      by simp
    then show ?thesis by (rule exI [of _ "[(?text, ''cell'')]"])
  next
    case (Inr embedding)
    obtain labels l' where lab: "generateLabels (recording S) l doc = (labels, l')"
      by (cases "generateLabels (recording S) l doc")
    from Cons.prems rec Inr lab have
      "addToIndex (recording S)
         \<lparr>w_index = index_set (c_id doc) (store_doc (CellDoc doc) embedding labels) idx,
          w_embeddings = (p', requests @ [(?text, ''cell'')]), w_labels = l'\<rparr> docs = (res, w')"
      by simp
    from Cons.IH [OF this] obtain sent where
      "snd (w_embeddings w') = (requests @ [(?text, ''cell'')]) @ sent"
      "prefix sent (map (\<lambda>d. (SearchService_generateEmbeddingText d, ''cell'')) docs)"
      "res = Inr () \<longrightarrow> sent = map (\<lambda>d. (SearchService_generateEmbeddingText d, ''cell'')) docs"
      by blast
    then have "snd (w_embeddings w') = requests @ ((?text, ''cell'') # sent)
      \<and> prefix ((?text, ''cell'') # sent) (map (\<lambda>d. (SearchService_generateEmbeddingText d, ''cell'')) (doc # docs))
      \<and> (res = Inr () \<longrightarrow> (?text, ''cell'') # sent = map (\<lambda>d. (SearchService_generateEmbeddingText d, ''cell'')) (doc # docs))"
      by simp
    then show ?thesis by (rule exI [of _ "(?text, ''cell'') # sent"])
  qed
qed

text \<open>Recording the requests changes neither the outcome nor the index.\<close>

lemma addToIndex_recording:
  "fst (addToIndex (recording S) \<lparr>w_index = idx, w_embeddings = (p, requests), w_labels = l\<rparr> docs)
     = fst (addToIndex S \<lparr>w_index = idx, w_embeddings = p, w_labels = l\<rparr> docs)
   \<and> w_index (snd (addToIndex (recording S) \<lparr>w_index = idx, w_embeddings = (p, requests), w_labels = l\<rparr> docs))
     = w_index (snd (addToIndex S \<lparr>w_index = idx, w_embeddings = p, w_labels = l\<rparr> docs))"
proof (induction docs arbitrary: idx p requests l)
  case Nil
  then show ?case by simp
next
  case (Cons doc docs)
  obtain r p' where emb: "generateEmbedding S p (SearchService_generateEmbeddingText doc) ''cell'' = (r, p')"
    by (cases "generateEmbedding S p (SearchService_generateEmbeddingText doc) ''cell''")
  obtain labels l' where lab: "generateLabels S l doc = (labels, l')"
    by (cases "generateLabels S l doc")
  show ?case
  proof (cases r)
    case (Inl e)
    with emb show ?thesis by (simp add: recording_def)
  next
    case (Inr embedding)
    have "generateEmbedding (recording S) (p, requests) (SearchService_generateEmbeddingText doc) ''cell''
      = (Inr embedding, (p', requests @ [(SearchService_generateEmbeddingText doc, ''cell'')]))"
      using emb Inr by (simp add: recording_def)
    with emb Inr lab Cons.IH show ?thesis
      by (simp add: generateLabels_recording)
  qed
qed

text \<open>
  Claim C5, as stated: the embedding text sent to the provider for a cell is the canonical
  form, with the row header, the formula type and the first three context values. It
  fails: \<open>addToIndex\<close> calls the method \<open>generateEmbeddingText\<close> of the search service, not
  the function of that name in heuristics.js, and the method leaves out the row header,
  the type and the context. For a cell with both headers and a context, the text that
  reaches the provider is not the canonical one.
\<close>

theorem embedding_text_not_canonical_counterexample:
  "snd (w_embeddings (snd (addToIndex (recording constant_services) (empty_world ((), [])) [headed_cell])))
     = [(''Sheet: Plan - Column: Q1 - Value: 5000'', ''cell'')]
   \<and> heuristics_generateEmbeddingText headed_cell
       = ''Sheet: Plan - Column: Q1 - Row: North - Value: 5000 - Context: Q2''"
  by code_simp

text \<open>
  Claim C5, amended. For every batch of cells, \<open>addToIndex\<close> sends one embedding request
  per cell, in the order of the batch and up to the first request that fails, with the
  kind \<open>cell\<close> and the text of the search service: the non-empty parts \<open>Sheet\<close>, \<open>Column\<close> (if
  the cell has a column header) and \<open>Formula\<close> (if it has a formula) or else \<open>Value\<close> (if it
  has a formatted value), joined with \<open>" - "\<close>. The row header, the formula type and the
  context are not part of the text.
\<close>

theorem embedding_text_sent:
  assumes "addToIndex (recording S) \<lparr>w_index = idx, w_embeddings = (p, requests), w_labels = l\<rparr> docs = (res, w')"
  shows "\<exists>sent. snd (w_embeddings w') = requests @ sent
         \<and> prefix sent (map (\<lambda>d. (SearchService_generateEmbeddingText d, ''cell'')) docs)
         \<and> (res = Inr () \<longrightarrow> sent = map (\<lambda>d. (SearchService_generateEmbeddingText d, ''cell'')) docs)"
  using assms by (rule addToIndex_requests)

theorem embedding_text_sent_witness:
  "snd (w_embeddings (snd (addToIndex (recording constant_services) (empty_world ((), [])) sales_cells)))
     = [(''Sheet: Sales - Value: Widgets'', ''cell''), (''Sheet: Sales - Value: Revenue'', ''cell''),
        (''Sheet: Sales - Value: Gadgets'', ''cell'')]"
proof -
  let ?run = "addToIndex (recording constant_services)
                \<lparr>w_index = [], w_embeddings = ((), []), w_labels = ()\<rparr> sales_cells"
  have ok: "fst ?run = Inr ()" by code_simp
  have texts: "map (\<lambda>d. (SearchService_generateEmbeddingText d, ''cell'')) sales_cells
      = [(''Sheet: Sales - Value: Widgets'', ''cell''), (''Sheet: Sales - Value: Revenue'', ''cell''),
         (''Sheet: Sales - Value: Gadgets'', ''cell'')]"
    by code_simp
  have "?run = (Inr (), snd ?run)" using ok by (simp add: prod_eq_iff)
  from embedding_text_sent [OF this] texts show ?thesis by (auto simp add: empty_world_def)
qed

section \<open>Symmetry and self-similarity of the cosine\<close>

subsection \<open>Exact arithmetic\<close>

lemma fold_swap:
  "fold (\<lambda>(x, y) (d, na, nb). (d + x * y, na + x * x, nb + y * y)) (zip b a) (d0, b0, a0)
   = (case fold (\<lambda>(x, y) (d, na, nb). (d + x * y, na + x * x, nb + y * y)) (zip a b) (d0, a0, b0)
      of (d, na, nb) \<Rightarrow> (d, nb, na))"
  for d0 :: real
proof (induction a arbitrary: b d0 a0 b0)
  case Nil
  then show ?case by simp
next
  case (Cons x xs)
  show ?case
  proof (cases b)
    case Nil
    then show ?thesis by simp
  next
    case (Cons y ys)
    with Cons.IH [of ys] show ?thesis by (simp add: mult.commute [of y x])
  qed
qed

lemma cosine_symmetric: "calculateCosineSimilarity a b = calculateCosineSimilarity b a"
proof (cases "length a = length b")
  case True
  obtain d na nb where acc: "accumulate a b = (d, na, nb)" by (cases "accumulate a b")
  then have "accumulate b a = (d, nb, na)"
    unfolding accumulate_def by (simp add: fold_swap [of b a])
  with acc True show ?thesis
    by (simp add: calculateCosineSimilarity_def cosine_path_def Let_def mult.commute disj_commute)
next
  case False
  then show ?thesis by (simp add: calculateCosineSimilarity_def cosine_path_def)
qed

lemma cosine_self_exact:
  assumes "\<exists>x\<in>set a. x \<noteq> 0"
  shows "calculateCosineSimilarity a a = Inr 1"
proof -
  let ?s = "\<Sum>x\<leftarrow>a. x * x"
  have "?s \<noteq> 0" using assms by (simp add: sum_squares_zero_iff)
  moreover have "0 \<le> ?s" by (rule sum_squares_nonneg)
  ultimately have pos: "0 < ?s" by simp
  have dot: "(\<Sum>(x, y)\<leftarrow>zip a a. x * y) = ?s"
    by (induction a) simp_all
  have "vector_norm a \<noteq> 0" using pos by (simp add: vector_norm_def)
  moreover have "vector_norm a * vector_norm a = ?s" using pos by (simp add: vector_norm_def)
  ultimately show ?thesis
    using pos by (simp add: calculateCosineSimilarity_def cosine_path_eq dot)
qed

subsection \<open>Rounding to doubles\<close>

lemma round_even_error: "\<bar>of_int (round_even y) - y\<bar> \<le> 1 / 2"
proof -
  have "of_int \<lfloor>y\<rfloor> \<le> y" "y < of_int \<lfloor>y\<rfloor> + 1" by linarith+
  then show ?thesis by (auto simp add: round_even_def Let_def)
qed

lemma round_even_unique:
  assumes "of_int m - 1 / 2 < y" and "y < of_int m + 1 / 2"
  shows "round_even y = m"
proof (cases "of_int m \<le> y")
  case True
  with assms have "\<lfloor>y\<rfloor> = m" by (simp add: floor_unique)
  with assms show ?thesis by (simp add: round_even_def Let_def)
next
  case False
  with assms have "of_int (m - 1) \<le> y" "y < of_int (m - 1) + 1" by simp_all
  then have "\<lfloor>y\<rfloor> = m - 1" by (rule floor_unique)
  with assms False show ?thesis by (simp add: round_even_def Let_def)
qed

lemma binade_eq:
  assumes "2 powr of_int e \<le> \<bar>x\<bar>" and "\<bar>x\<bar> < 2 powr (of_int e + 1)"
  shows "binade x = e"
proof -
  have "0 < (2::real) powr of_int e" by simp
  with assms(1) have "0 < \<bar>x\<bar>" by linarith
  then show ?thesis
    unfolding binade_def using assms by (simp add: floor_log_eq_powr_iff)
qed

lemma round_even_ge:
  assumes "of_int m \<le> y"
  shows "m \<le> round_even y"
proof -
  from assms have "m \<le> \<lfloor>y\<rfloor>" by (simp add: le_floor_iff)
  then show ?thesis by (simp add: round_even_def Let_def)
qed

lemma binade_le: "x \<noteq> 0 \<Longrightarrow> 2 powr of_int (binade x) \<le> \<bar>x\<bar>"
proof -
  assume "x \<noteq> 0"
  then have pos: "0 < \<bar>x\<bar>" by simp
  have "of_int (binade x) \<le> log 2 \<bar>x\<bar>" unfolding binade_def by (rule of_int_floor_le)
  then have "2 powr of_int (binade x) \<le> 2 powr log 2 \<bar>x\<bar>" by simp
  with pos show ?thesis by simp
qed

lemma binade_ge:
  assumes "2 powr of_int e \<le> \<bar>x\<bar>"
  shows "e \<le> binade x"
proof -
  have "0 < (2::real) powr of_int e" by simp
  with assms have pos: "0 < \<bar>x\<bar>" by linarith
  from assms pos have "of_int e \<le> log 2 \<bar>x\<bar>" by (simp add: le_log_iff)
  then show ?thesis unfolding binade_def by (simp add: le_floor_iff)
qed

lemma binade_less:
  assumes "x \<noteq> 0" and "\<bar>x\<bar> < 2 powr of_int e"
  shows "binade x < e"
proof -
  from assms have "log 2 \<bar>x\<bar> < of_int e" by (simp add: log_less_iff)
  then show ?thesis unfolding binade_def by (simp add: floor_less_iff)
qed

text \<open>The relative error of a rounding at the exponent of the number.\<close>

lemma round_at_error:
  assumes "x \<noteq> 0"
  shows "\<bar>round_at (binade x) x - x\<bar> \<le> \<bar>x\<bar> / 2 ^ 53"
proof -
  define u :: real where "u = 2 powr of_int (binade x - 52)"
  define k where "k = round_even (x / u)"
  have upos: "0 < u" by (simp add: u_def)
  have "u = 2 powr of_int (binade x) / 2 powr 52"
    unfolding u_def by (simp add: powr_diff)
  also have "\<dots> = 2 powr of_int (binade x) / 2 ^ 52" by simp
  also have "\<dots> \<le> \<bar>x\<bar> / 2 ^ 52"
    using binade_le [OF assms] by (rule divide_right_mono) simp
  finally have u_le: "u \<le> \<bar>x\<bar> / 2 ^ 52" .
  have td: "round_at (binade x) x = of_int k * u"
    by (simp only: round_at_def u_def k_def)
  have "(of_int k - x / u) * u = of_int k * u - x"
    using upos by (simp add: left_diff_distrib)
  with td have "round_at (binade x) x - x = (of_int k - x / u) * u" by simp
  then have "\<bar>round_at (binade x) x - x\<bar> = \<bar>of_int k - x / u\<bar> * u"
    using upos by (simp only: abs_mult abs_of_pos)
  also have "\<dots> \<le> 1 / 2 * u"
    using round_even_error [of "x / u"] upos unfolding k_def by (rule mult_right_mono [OF _ less_imp_le])
  also have "\<dots> \<le> 1 / 2 * (\<bar>x\<bar> / 2 ^ 52)" using u_le by simp
  also have "\<dots> = \<bar>x\<bar> / 2 ^ 53" by simp
  finally show ?thesis .
qed

lemma round_at_factor:
  assumes "x \<noteq> 0"
  obtains \<delta> where "round_at (binade x) x = x * (1 + \<delta>)" and "\<bar>\<delta>\<bar> \<le> 1 / 2 ^ 53"
proof
  let ?r = "round_at (binade x) x"
  show "?r = x * (1 + (?r - x) / x)" using assms by (simp add: field_simps)
  have "\<bar>(?r - x) / x\<bar> = \<bar>?r - x\<bar> / \<bar>x\<bar>" by (simp add: abs_divide)
  also have "\<dots> \<le> (\<bar>x\<bar> / 2 ^ 53) / \<bar>x\<bar>"
    using round_at_error [OF assms] assms by (simp add: divide_right_mono)
  also have "\<dots> = 1 / 2 ^ 53" using assms by simp
  finally show "\<bar>(?r - x) / x\<bar> \<le> 1 / 2 ^ 53" .
qed

text \<open>
  In the normal range the rounding is the one at the exponent of the number; a number of
  magnitude \<open>2\<^sup>1\<^sup>0\<^sup>2\<^sup>4\<close> or more overflows, and one below \<open>2\<^sup>-\<^sup>1\<^sup>0\<^sup>7\<^sup>5\<close> underflows to zero.
\<close>

lemma to_double_normal:
  assumes "1 / 2 ^ 1022 \<le> \<bar>x\<bar>" and "\<bar>x\<bar> \<le> 2 ^ 1023"
  shows "to_double x = Dbl (round_at (binade x) x)"
proof -
  have "(0::real) < 1 / 2 ^ 1022" by simp
  with assms(1) have nz: "x \<noteq> 0" by linarith
  have "(2::real) powr of_int (- 1022) = 1 / 2 ^ 1022" by (simp add: powr_minus_divide)
  with assms(1) have "- 1022 \<le> binade x" by (intro binade_ge) simp
  then have e: "max (binade x) (- 1022) = binade x" by simp
  let ?r = "round_at (binade x) x"
  have "\<bar>?r\<bar> \<le> \<bar>x\<bar> + \<bar>?r - x\<bar>" by simp
  also have "\<dots> \<le> \<bar>x\<bar> + \<bar>x\<bar> / 2 ^ 53" using round_at_error [OF nz] by simp
  also have "\<dots> \<le> 2 ^ 1023 + 2 ^ 1023 / 2 ^ 53" using assms(2) by (intro add_mono divide_right_mono) simp_all
  also have "\<dots> < 2 ^ 1024" by simp
  finally have "\<not> 2 ^ 1024 \<le> \<bar>?r\<bar>" by simp
  with nz e show ?thesis by (simp add: to_double_def Let_def)
qed

lemma to_double_overflow:
  assumes "2 ^ 1024 \<le> x"
  shows "to_double x = Infinity"
proof -
  have "(0::real) < 2 ^ 1024" by simp
  with assms have pos: "0 < x" by linarith
  define e where "e = max (binade x) (- 1022)"
  define u :: real where "u = 2 powr of_int (e - 52)"
  have upos: "0 < u" by (simp add: u_def)
  have "(2::real) powr of_int 1024 = 2 ^ 1024" by (simp add: powr_realpow [symmetric])
  with assms pos have "1024 \<le> binade x" by (intro binade_ge) simp
  then have e: "e = binade x" and big: "1024 \<le> e" by (simp_all add: e_def)
  have "2 powr of_int e \<le> x" using binade_le [of x] pos e by simp
  moreover have "2 powr of_int e = 2 ^ 52 * u"
    unfolding u_def by (simp add: powr_diff)
  ultimately have "2 ^ 52 * u \<le> x" by simp
  then have "of_int (2 ^ 52) \<le> x / u" using upos by (simp add: pos_le_divide_eq)
  then have "2 ^ 52 \<le> round_even (x / u)" by (rule round_even_ge)
  then have "(2::real) ^ 52 \<le> of_int (round_even (x / u))" by (simp add: numeral_power_le_of_int_cancel_iff)
  then have "2 ^ 52 * u \<le> of_int (round_even (x / u)) * u"
    using upos by (simp add: mult_right_mono)
  then have "2 powr of_int e \<le> round_at e x"
    using \<open>2 powr of_int e = 2 ^ 52 * u\<close> by (simp only: round_at_def u_def)
  moreover have "(2::real) powr of_int (1024::int) \<le> 2 powr of_int e"
    using big by (intro powr_mono) simp_all
  ultimately have "2 ^ 1024 \<le> round_at e x"
    using \<open>(2::real) powr of_int 1024 = 2 ^ 1024\<close> by (simp only:)
  then have "2 ^ 1024 \<le> \<bar>round_at e x\<bar>" by simp
  with pos show ?thesis by (simp add: to_double_def Let_def e_def)
qed

lemma to_double_underflow:
  assumes "\<bar>x\<bar> < 1 / 2 ^ 1075"
  shows "to_double x = Dbl 0"
proof (cases "x = 0")
  case True
  then show ?thesis by (simp add: to_double_def)
next
  case False
  have "(2::real) powr of_int (- 1075) = 1 / 2 ^ 1075" by (simp add: powr_minus_divide)
  with assms False have "binade x < - 1075" by (intro binade_less) simp_all
  then have e: "max (binade x) (- 1022) = - 1022" by simp
  have u: "(2::real) powr of_int (- 1022 - 52) = 1 / 2 ^ 1074" by (simp add: powr_minus_divide)
  from assms have small: "\<bar>x / (1 / 2 ^ 1074)\<bar> < 1 / 2" by (simp add: abs_mult)
  have "round_even (x / (1 / 2 ^ 1074)) = 0"
  proof (rule round_even_unique)
    show "of_int 0 - 1 / 2 < x / (1 / 2 ^ 1074)" using small by (simp add: abs_less_iff)
    show "x / (1 / 2 ^ 1074) < of_int 0 + 1 / 2" using small by (simp add: abs_less_iff)
  qed
  then have "round_at (- 1022) x = 0" by (simp only: round_at_def u)
  with False e show ?thesis by (simp add: to_double_def Let_def)
qed

subsection \<open>The path of the function on finite values\<close>

lemma double_add_finite: "double_add (Dbl x) (Dbl y) = to_double (x + y)"
  by (simp add: double_add_def)

lemma double_mul_finite: "double_mul (Dbl x) (Dbl y) = to_double (x * y)"
  by (simp add: double_mul_def)

lemma double_div_finite: "y \<noteq> 0 \<Longrightarrow> double_div (Dbl x) (Dbl y) = to_double (x / y)"
  by (simp add: double_div_def)

lemma cosine_double_finite:
  assumes "length a = length b" and "accumulate_double a b = (Dbl d, Dbl na, Dbl nb)"
    and "0 \<le> na" and "0 \<le> nb"
    and "to_double (sqrt na) = Dbl s" and "to_double (sqrt nb) = Dbl t"
    and "s \<noteq> 0" and "t \<noteq> 0"
    and "to_double (s * t) = Dbl p" and "p \<noteq> 0"
  shows "calculateCosineSimilarity_double a b = Inr (to_double (d / p))"
  using assms
  by (simp add: calculateCosineSimilarity_double_def Let_def double_mul_finite double_div_finite)

subsection \<open>Roundings evaluated\<close>

lemma to_double_eq:
  assumes "2 powr of_int e \<le> \<bar>x\<bar>" and "\<bar>x\<bar> < 2 powr (of_int e + 1)"
    and "of_int m - 1 / 2 < x / 2 powr of_int (e - 52)"
    and "x / 2 powr of_int (e - 52) < of_int m + 1 / 2"
    and "1 / 2 ^ 1022 \<le> \<bar>x\<bar>" and "\<bar>x\<bar> \<le> 2 ^ 1023"
  shows "to_double x = Dbl (of_int m * 2 powr of_int (e - 52))"
proof -
  have "binade x = e" using assms(1,2) by (rule binade_eq)
  moreover have "round_even (x / 2 powr of_int (e - 52)) = m" using assms(3,4) by (rule round_even_unique)
  ultimately have "round_at (binade x) x = of_int m * 2 powr of_int (e - 52)"
    by (simp add: round_at_def)
  with to_double_normal [OF assms(5,6)] show ?thesis by simp
qed

lemma double_0: "to_double 0 = Dbl 0"
  by (simp add: to_double_def)

lemma double_1: "to_double 1 = Dbl 1"
  using to_double_eq [of 0 1 4503599627370496] by (simp add: powr_minus)

lemma double_2: "to_double 2 = Dbl 2"
  using to_double_eq [of 1 2 4503599627370496] by (simp add: powr_minus)

lemma sqrt_2_bounds:
  "12738103345051545 / 9007199254740992 < sqrt 2"
  "sqrt 2 < 12738103345051547 / 9007199254740992"
proof -
  show "12738103345051545 / 9007199254740992 < sqrt 2"
    by (rule real_less_rsqrt) (simp add: power2_eq_square)
  show "sqrt 2 < 12738103345051547 / 9007199254740992"
    by (rule real_less_lsqrt) (simp_all add: power2_eq_square)
qed

lemma double_sqrt_2: "to_double (sqrt 2) = Dbl (6369051672525773 / 4503599627370496)"
proof -
  have "1 \<le> sqrt 2" by simp
  moreover have "sqrt 2 < 2" using sqrt_2_bounds(2) by simp
  ultimately show ?thesis
    using to_double_eq [of 0 "sqrt 2" 6369051672525773] sqrt_2_bounds
    by (simp add: powr_minus field_simps)
qed

lemma double_square:
  "to_double (6369051672525773 / 4503599627370496 * (6369051672525773 / 4503599627370496))
     = Dbl (4503599627370497 / 2251799813685248)"
  using to_double_eq [of 1 "6369051672525773 / 4503599627370496 * (6369051672525773 / 4503599627370496)"
      4503599627370497]
  by (simp add: powr_minus)

lemma double_quotient:
  "to_double (2 / (4503599627370497 / 2251799813685248)) = Dbl (4503599627370495 / 4503599627370496)"
  using to_double_eq [of "- 1" "2 / (4503599627370497 / 2251799813685248)" 9007199254740990]
  by (simp add: powr_minus)

lemma accumulate_ones: "accumulate_double [1, 1] [1, 1] = (Dbl 2, Dbl 2, Dbl 2)"
  by (simp add: accumulate_double_def double_add_finite double_mul_finite double_1 double_2)

text \<open>
  Claim C8, as stated: the cosine similarity is symmetric, and the cosine of a nonzero
  vector with itself is 1. The second half fails in the arithmetic of the program. For
  \<open>a = [1, 1]\<close> both norms are the double nearest to \<open>\<surd>2\<close>, their product rounds to
  \<open>2 + 2\<^sup>-\<^sup>5\<^sup>1\<close>, and the quotient rounds to \<open>1 - 2\<^sup>-\<^sup>5\<^sup>2\<close>, which is \<open>0.9999999999999998\<close>. For
  \<open>a = [2\<^sup>6\<^sup>0\<^sup>0]\<close> the square overflows, and the result is \<open>\<infinity> / \<infinity>\<close>, which is \<open>NaN\<close>. For
  \<open>a = [2\<^sup>-\<^sup>6\<^sup>0\<^sup>0]\<close> the square underflows to zero, and the guard for the zero norm returns 0.
\<close>

theorem cosine_self_in_doubles_counterexample:
  "calculateCosineSimilarity_double [1, 1] [1, 1] = Inr (Dbl (4503599627370495 / 4503599627370496))
   \<and> calculateCosineSimilarity_double [1, 1] [1, 1] \<noteq> Inr (Dbl 1)
   \<and> calculateCosineSimilarity_double [2 ^ 600] [2 ^ 600] = Inr NaNd
   \<and> calculateCosineSimilarity_double [1 / 2 ^ 600] [1 / 2 ^ 600] = Inr (Dbl 0)"
proof -
  have "calculateCosineSimilarity_double [1, 1] [1, 1]
      = Inr (to_double (2 / (4503599627370497 / 2251799813685248)))"
    by (rule cosine_double_finite [OF _ accumulate_ones _ _ double_sqrt_2 double_sqrt_2 _ _ double_square]) simp_all
  then have one: "calculateCosineSimilarity_double [1, 1] [1, 1]
      = Inr (Dbl (4503599627370495 / 4503599627370496))"
    by (simp only: double_quotient)
  have "to_double (2 ^ 600 * 2 ^ 600) = Infinity" by (rule to_double_overflow) simp
  then have big: "accumulate_double [2 ^ 600] [2 ^ 600] = (Infinity, Infinity, Infinity)"
    by (simp add: accumulate_double_def double_add_def double_mul_def)
  have over: "calculateCosineSimilarity_double [2 ^ 600] [2 ^ 600] = Inr NaNd"
    unfolding calculateCosineSimilarity_double_def big
    by (simp add: Let_def double_mul_def double_div_def)
  have "to_double (1 / 2 ^ 600 * (1 / 2 ^ 600)) = Dbl 0" by (rule to_double_underflow) simp
  then have small: "accumulate_double [1 / 2 ^ 600] [1 / 2 ^ 600] = (Dbl 0, Dbl 0, Dbl 0)"
    by (simp add: accumulate_double_def double_add_def double_mul_def double_0)
  have under: "calculateCosineSimilarity_double [1 / 2 ^ 600] [1 / 2 ^ 600] = Inr (Dbl 0)"
    unfolding calculateCosineSimilarity_double_def small
    by (simp add: Let_def double_0)
  from one over under show ?thesis by simp
qed

subsection \<open>Symmetry on doubles\<close>

lemma double_mul_commute: "double_mul a b = double_mul b a"
  by (cases a; cases b) (simp_all add: double_mul_def mult.commute)

lemma fold_double_swap:
  "fold (\<lambda>(x, y) (d, na, nb).
           (double_add d (double_mul (Dbl x) (Dbl y)), double_add na (double_mul (Dbl x) (Dbl x)),
            double_add nb (double_mul (Dbl y) (Dbl y))))
        (zip b a) (d0, b0, a0)
   = (case fold (\<lambda>(x, y) (d, na, nb).
                   (double_add d (double_mul (Dbl x) (Dbl y)), double_add na (double_mul (Dbl x) (Dbl x)),
                    double_add nb (double_mul (Dbl y) (Dbl y))))
             (zip a b) (d0, a0, b0)
      of (d, na, nb) \<Rightarrow> (d, nb, na))"
proof (induction a arbitrary: b d0 a0 b0)
  case Nil
  then show ?case by simp
next
  case (Cons x xs)
  show ?case
  proof (cases b)
    case Nil
    then show ?thesis by simp
  next
    case (Cons y ys)
    with Cons.IH [of ys] show ?thesis by (simp add: double_mul_commute [of "Dbl y" "Dbl x"])
  qed
qed

lemma cosine_double_symmetric:
  "calculateCosineSimilarity_double a b = calculateCosineSimilarity_double b a"
proof (cases "length a = length b")
  case True
  obtain d na nb where acc: "accumulate_double a b = (d, na, nb)"
    by (cases "accumulate_double a b")
  then have "accumulate_double b a = (d, nb, na)"
    unfolding accumulate_double_def by (simp add: fold_double_swap [of b a])
  with acc True show ?thesis
    by (simp add: calculateCosineSimilarity_double_def Let_def disj_commute
          double_mul_commute [of "double_sqrt nb" "double_sqrt na"])
next
  case False
  then show ?thesis by (simp add: calculateCosineSimilarity_double_def)
qed

subsection \<open>The cosine of a vector with itself, on doubles\<close>

lemma fold_double_self:
  "fold (\<lambda>(x, y) (d, na, nb).
           (double_add d (double_mul (Dbl x) (Dbl y)), double_add na (double_mul (Dbl x) (Dbl x)),
            double_add nb (double_mul (Dbl y) (Dbl y))))
        (zip a a) (c, c, c)
   = (fold (\<lambda>x acc. double_add acc (double_mul (Dbl x) (Dbl x))) a c,
      fold (\<lambda>x acc. double_add acc (double_mul (Dbl x) (Dbl x))) a c,
      fold (\<lambda>x acc. double_add acc (double_mul (Dbl x) (Dbl x))) a c)"
  by (induction a arbitrary: c) simp_all

lemma accumulate_double_self:
  "fst (accumulate_double a a) = d \<Longrightarrow> accumulate_double a a = (d, d, d)"
  unfolding accumulate_double_def by (simp add: fold_double_self)

lemma to_double_factor:
  assumes "1 / 2 ^ 1022 \<le> \<bar>x\<bar>" and "\<bar>x\<bar> \<le> 2 ^ 1023"
  obtains r \<delta> where "to_double x = Dbl r" and "r = x * (1 + \<delta>)" and "\<bar>\<delta>\<bar> \<le> 1 / 2 ^ 53"
proof -
  have "(0::real) < 1 / 2 ^ 1022" by simp
  with assms(1) have "x \<noteq> 0" by linarith
  then obtain \<delta> where "round_at (binade x) x = x * (1 + \<delta>)" and "\<bar>\<delta>\<bar> \<le> 1 / 2 ^ 53"
    by (rule round_at_factor)
  with to_double_normal [OF assms] that show ?thesis by blast
qed

lemma factor_bounds:
  fixes \<delta> :: real
  assumes "\<bar>\<delta>\<bar> \<le> 1 / 2 ^ 53"
  shows "1 / 2 \<le> 1 + \<delta>" and "1 + \<delta> \<le> 2"
proof -
  have "(1::real) / 2 ^ 53 \<le> 1 / 2" by simp
  with assms have "\<bar>\<delta>\<bar> \<le> 1 / 2" by linarith
  then show "1 / 2 \<le> 1 + \<delta>" and "1 + \<delta> \<le> 2" by (simp_all add: abs_le_iff)
qed

lemma ratio_bounds:
  fixes d1 d2 d3 :: real
  assumes "\<bar>d1\<bar> \<le> 1 / 2 ^ 53" "\<bar>d2\<bar> \<le> 1 / 2 ^ 53" "\<bar>d3\<bar> \<le> 1 / 2 ^ 53"
  shows "\<bar>(1 + d3) / ((1 + d1) * (1 + d1) * (1 + d2)) - 1\<bar> \<le> 1 / 2 ^ 50"
proof -
  define lo :: real where "lo = 1 - 1 / 2 ^ 53"
  define hi :: real where "hi = 1 + 1 / 2 ^ 53"
  have lo_pos: "0 < lo" by (simp add: lo_def)
  have b1: "lo \<le> 1 + d1" "1 + d1 \<le> hi" using assms(1) by (simp_all add: lo_def hi_def abs_le_iff)
  have b2: "lo \<le> 1 + d2" "1 + d2 \<le> hi" using assms(2) by (simp_all add: lo_def hi_def abs_le_iff)
  have b3: "lo \<le> 1 + d3" "1 + d3 \<le> hi" using assms(3) by (simp_all add: lo_def hi_def abs_le_iff)
  define A where "A = (1 + d1) * (1 + d1) * (1 + d2)"
  have "lo * lo \<le> (1 + d1) * (1 + d1)" using b1 lo_pos by (intro mult_mono) simp_all
  then have A_lo: "lo * lo * lo \<le> A" unfolding A_def using b1 b2 lo_pos by (intro mult_mono) simp_all
  have "(1 + d1) * (1 + d1) \<le> hi * hi" using b1 lo_pos by (intro mult_mono) simp_all
  then have A_hi: "A \<le> hi * hi * hi" unfolding A_def using b1 b2 lo_pos by (intro mult_mono) simp_all
  have lo3: "0 < lo * lo * lo" using lo_pos by simp
  with A_lo have A_pos: "0 < A" by linarith
  have upper: "(1 + d3) / A \<le> hi / (lo * lo * lo)"
    using b3 A_lo lo3 lo_pos by (intro frac_le) simp_all
  have lower: "lo / (hi * hi * hi) \<le> (1 + d3) / A"
    using b3 A_hi A_pos lo_pos by (intro frac_le) simp_all
  define e :: real where "e = 1 / 2 ^ 50"
  have "hi / (lo * lo * lo) \<le> 1 + e" by (simp add: lo_def hi_def e_def field_simps)
  with upper have u: "(1 + d3) / A \<le> 1 + e" by (rule order_trans)
  have "1 - e \<le> lo / (hi * hi * hi)" by (simp add: lo_def hi_def e_def field_simps)
  then have l: "1 - e \<le> (1 + d3) / A" using lower by (rule order_trans)
  from u l have "\<bar>(1 + d3) / A - 1\<bar> \<le> e" by (simp only: abs_le_iff) linarith
  then show ?thesis unfolding A_def e_def .
qed

lemma cosine_self_doubles:
  assumes "fst (accumulate_double a a) = Dbl D" and "1 / 2 ^ 1020 \<le> D" and "D \<le> 2 ^ 1020"
  shows "\<exists>r. calculateCosineSimilarity_double a a = Inr (Dbl r) \<and> \<bar>r - 1\<bar> \<le> 1 / 2 ^ 50"
proof -
  have acc: "accumulate_double a a = (Dbl D, Dbl D, Dbl D)"
    using assms(1) by (rule accumulate_double_self)
  have "(0::real) < 1 / 2 ^ 1020" by simp
  with assms(2) have D_pos: "0 < D" by linarith
  have root: "sqrt D * sqrt D = D" using D_pos by simp
  have "(1 / 2 ^ 510)\<^sup>2 \<le> D" using assms(2) by (simp add: power_divide)
  then have root_lo: "1 / 2 ^ 510 \<le> sqrt D" by (rule real_le_rsqrt)
  have "D \<le> (2 ^ 510)\<^sup>2" using assms(3) by simp
  with D_pos have root_hi: "sqrt D \<le> 2 ^ 510" by (intro real_le_lsqrt) simp_all
  have "1 / 2 ^ 1022 \<le> \<bar>sqrt D\<bar>" using root_lo by simp
  moreover have "(2::real) ^ 510 \<le> 2 ^ 1023" by simp
  with root_hi have "sqrt D \<le> 2 ^ 1023" by (rule order_trans)
  then have "\<bar>sqrt D\<bar> \<le> 2 ^ 1023" using D_pos by (simp only: abs_of_nonneg real_sqrt_ge_zero less_imp_le)
  ultimately obtain s d1 where s: "to_double (sqrt D) = Dbl s"
    and s_eq: "s = sqrt D * (1 + d1)" and d1: "\<bar>d1\<bar> \<le> 1 / 2 ^ 53"
    by (rule to_double_factor)
  have "1 / 2 ^ 510 * (1 / 2) \<le> sqrt D * (1 + d1)"
    using root_lo factor_bounds(1) [OF d1] D_pos by (intro mult_mono) simp_all
  then have s_lo: "1 / 2 ^ 511 \<le> s" by (simp add: s_eq)
  have "sqrt D * (1 + d1) \<le> 2 ^ 510 * 2"
    using root_hi factor_bounds [OF d1] D_pos by (intro mult_mono) simp_all
  then have s_hi: "s \<le> 2 ^ 511" by (simp add: s_eq)
  have "(0::real) < 1 / 2 ^ 511" by simp
  with s_lo have s_pos: "0 < s" by linarith
  have "1 / 2 ^ 511 * (1 / 2 ^ 511) \<le> s * s" using s_lo by (intro mult_mono) simp_all
  then have "1 / 2 ^ 1022 \<le> \<bar>s * s\<bar>" by simp
  moreover have "s * s \<le> 2 ^ 511 * 2 ^ 511" using s_hi s_pos by (intro mult_mono) simp_all
  then have "\<bar>s * s\<bar> \<le> 2 ^ 1023" by simp
  ultimately obtain p d2 where p: "to_double (s * s) = Dbl p"
    and p_eq: "p = s * s * (1 + d2)" and d2: "\<bar>d2\<bar> \<le> 1 / 2 ^ 53"
    by (rule to_double_factor)
  define B where "B = (1 + d1) * (1 + d1)"
  define A where "A = B * (1 + d2)"
  have B_lo: "1 / 4 \<le> B"
    unfolding B_def using mult_mono [of "1 / 2" "1 + d1" "1 / 2" "1 + d1"] factor_bounds(1) [OF d1]
    by simp
  have B_hi: "B \<le> 4"
    unfolding B_def using mult_mono [of "1 + d1" 2 "1 + d1" 2] factor_bounds [OF d1]
    by simp
  have A_lo: "1 / 8 \<le> A"
    unfolding A_def using mult_mono [of "1 / 4" B "1 / 2" "1 + d2"] B_lo factor_bounds(1) [OF d2]
    by simp
  have A_hi: "A \<le> 8"
    unfolding A_def using mult_mono [of B 4 "1 + d2" 2] B_lo B_hi factor_bounds [OF d2]
    by simp
  from A_lo have A_pos: "0 < A" by linarith
  have "s * s = (sqrt D * sqrt D) * ((1 + d1) * (1 + d1))"
    unfolding s_eq by (simp only: mult_ac)
  then have "s * s = D * ((1 + d1) * (1 + d1))" by (simp only: root)
  then have p_A: "p = D * A" unfolding p_eq A_def B_def by (simp only: mult.assoc)
  with D_pos A_pos have p_pos: "0 < p" by simp
  have ratio: "D / p = 1 / A" using D_pos p_A by simp
  have "1 / A \<le> 1 / (1 / 8)" using A_lo by (intro divide_left_mono) simp_all
  then have ratio_hi: "\<bar>D / p\<bar> \<le> 2 ^ 1023" using A_pos by (simp add: ratio)
  have "1 / 8 \<le> 1 / A" using A_hi A_pos by (intro divide_left_mono) simp_all
  then have ratio_lo: "1 / 2 ^ 1022 \<le> \<bar>D / p\<bar>" using A_pos by (simp add: ratio)
  from ratio_lo ratio_hi obtain r d3 where r: "to_double (D / p) = Dbl r"
    and r_eq: "r = D / p * (1 + d3)" and d3: "\<bar>d3\<bar> \<le> 1 / 2 ^ 53"
    by (rule to_double_factor)
  have "r = (1 + d3) / ((1 + d1) * (1 + d1) * (1 + d2))"
    unfolding r_eq ratio A_def B_def by simp
  with ratio_bounds [OF d1 d2 d3] have close: "\<bar>r - 1\<bar> \<le> 1 / 2 ^ 50" by simp
  have "calculateCosineSimilarity_double a a = Inr (to_double (D / p))"
    using D_pos s_pos p_pos by (intro cosine_double_finite [OF _ acc _ _ s s _ _ p]) simp_all
  with r close show ?thesis by simp
qed

subsection \<open>Vectors whose sum of squares neither overflows nor underflows\<close>

text \<open>
  Rounding does not cross a double: a number that is at most a multiple \<open>m \<times> 2\<^sup>j\<close> of a power
  of two that lies on the grid of the rounding is rounded to at most that multiple, and a
  positive number is rounded to at least the power of two below it.
\<close>

lemma round_even_le:
  assumes "y \<le> of_int m"
  shows "round_even y \<le> m"
proof (cases "y = of_int m")
  case True
  then show ?thesis by (simp add: round_even_def Let_def)
next
  case False
  with assms have "y < of_int m" by simp
  then have "\<lfloor>y\<rfloor> < m" by (simp add: floor_less_iff)
  then show ?thesis by (simp add: round_even_def Let_def)
qed

lemma round_at_le_grid:
  assumes "x \<le> of_int m * 2 powr of_int j" and "e - 52 \<le> j"
  shows "round_at e x \<le> of_int m * 2 powr of_int j"
proof -
  define u :: real where "u = 2 powr of_int (e - 52)"
  define n where "n = nat (j - (e - 52))"
  have upos: "0 < u" by (simp add: u_def)
  have "(2::real) powr of_int j = 2 powr of_int (int n) * u"
    unfolding u_def n_def using assms(2) by (simp add: powr_add [symmetric])
  also have "(2::real) powr of_int (int n) = 2 ^ n" by (simp add: powr_realpow)
  finally have grid: "(2::real) powr of_int j = 2 ^ n * u" .
  have "x / u \<le> (of_int m * 2 ^ n * u) / u"
    using assms(1) upos unfolding grid by (intro divide_right_mono) (simp_all add: mult.assoc)
  then have "x / u \<le> of_int (m * 2 ^ n)" using upos by simp
  then have "round_even (x / u) \<le> m * 2 ^ n" by (rule round_even_le)
  then have "(of_int (round_even (x / u)) :: real) \<le> of_int (m * 2 ^ n)" by (simp only: of_int_le_iff)
  then have "of_int (round_even (x / u)) * u \<le> of_int (m * 2 ^ n) * u"
    using upos by (intro mult_right_mono) simp_all
  then show ?thesis unfolding round_at_def u_def [symmetric] grid by (simp add: mult.assoc)
qed

lemma round_at_ge_binade:
  assumes "0 < x"
  shows "2 powr of_int (binade x) \<le> round_at (binade x) x"
proof -
  define u :: real where "u = 2 powr of_int (binade x - 52)"
  have upos: "0 < u" by (simp add: u_def)
  have grid: "2 powr of_int (binade x) = 2 ^ 52 * u"
    unfolding u_def by (simp add: powr_diff)
  have "2 powr of_int (binade x) \<le> x" using binade_le [of x] assms by simp
  then have "2 ^ 52 * u \<le> x" by (simp only: grid)
  then have "of_int (2 ^ 52) \<le> x / u" using upos by (simp add: pos_le_divide_eq)
  then have "2 ^ 52 \<le> round_even (x / u)" by (rule round_even_ge)
  then have "(2::real) ^ 52 \<le> of_int (round_even (x / u))"
    by (simp add: numeral_power_le_of_int_cancel_iff)
  then have "2 ^ 52 * u \<le> of_int (round_even (x / u)) * u"
    using upos by (simp add: mult_right_mono)
  then show ?thesis by (simp only: round_at_def u_def [symmetric] grid)
qed

text \<open>
  A number between 0 and \<open>m \<times> 2\<^sup>1\<^sup>0\<^sup>0\<^sup>0\<close>, for \<open>m\<close> up to \<open>2\<^sup>2\<^sup>0\<close>, is rounded to a finite number
  in the same interval, and to at least \<open>2\<^sup>-\<^sup>1\<^sup>0\<^sup>0\<^sup>0\<close> when it is at least that.
\<close>

lemma to_double_bounded:
  assumes "0 \<le> x" and "x \<le> of_nat m * 2 ^ 1000" and "m \<le> 2 ^ 20"
  obtains r where "to_double x = Dbl r" and "0 \<le> r" and "r \<le> of_nat m * 2 ^ 1000"
    and "1 / 2 ^ 1000 \<le> x \<longrightarrow> 1 / 2 ^ 1000 \<le> r"
proof (cases "x = 0")
  case True
  have "to_double x = Dbl 0" "(0::real) \<le> 0" "(0::real) \<le> of_nat m * 2 ^ 1000"
    "1 / 2 ^ 1000 \<le> x \<longrightarrow> 1 / 2 ^ 1000 \<le> (0::real)"
    using True by (simp_all add: to_double_def)
  then show ?thesis by (rule that)
next
  case False
  with assms(1) have pos: "0 < x" by simp
  define e where "e = max (binade x) (- 1022)"
  define r where "r = round_at e x"
  have p1000: "(2::real) powr of_int 1000 = 2 ^ 1000" by (simp add: powr_realpow [symmetric])
  have "real m \<le> 2 ^ 20" using assms(3) by (metis of_nat_le_iff of_nat_numeral of_nat_power)
  then have "of_nat m * (2::real) ^ 1000 \<le> 2 ^ 20 * 2 ^ 1000" by (intro mult_right_mono) simp_all
  also have "\<dots> < 2 ^ 1021" by simp
  finally have top: "of_nat m * (2::real) ^ 1000 < 2 ^ 1021" .
  with assms(2) have "\<bar>x\<bar> < 2 ^ 1021" using pos by simp
  moreover have "(2::real) powr of_int 1021 = 2 ^ 1021" by (simp add: powr_realpow [symmetric])
  ultimately have "binade x < 1021" using False by (intro binade_less) simp_all
  then have e_hi: "e - 52 \<le> 1000" by (simp add: e_def)
  have "x \<le> of_int (int m) * 2 powr of_int 1000" using assms(2) by (simp only: p1000 of_int_of_nat_eq)
  then have "r \<le> of_int (int m) * 2 powr of_int 1000"
    unfolding r_def using e_hi by (rule round_at_le_grid)
  then have r_hi: "r \<le> of_nat m * 2 ^ 1000" by (simp only: p1000 of_int_of_nat_eq)
  have "0 \<le> x / 2 powr of_int (e - 52)" using pos by simp
  then have "of_int 0 \<le> x / 2 powr of_int (e - 52)" by simp
  then have "0 \<le> round_even (x / 2 powr of_int (e - 52))" by (rule round_even_ge)
  then have r_lo: "0 \<le> r" unfolding r_def round_at_def by simp
  from r_hi top have "\<bar>r\<bar> < 2 ^ 1024" using r_lo by simp
  then have finite: "to_double x = Dbl r"
    using False by (simp add: to_double_def Let_def e_def r_def)
  have normal: "1 / 2 ^ 1000 \<le> r" if "1 / 2 ^ 1000 \<le> x"
  proof -
    have low: "(2::real) powr of_int (- 1000) = 1 / 2 ^ 1000" by (simp add: powr_minus_divide)
    with that have "- 1000 \<le> binade x" using pos by (intro binade_ge) simp
    then have e: "e = binade x" by (simp add: e_def)
    from \<open>- 1000 \<le> binade x\<close> have "(2::real) powr of_int (- 1000) \<le> 2 powr of_int (binade x)"
      by (intro powr_mono) simp_all
    also have "\<dots> \<le> r" unfolding r_def e using pos by (rule round_at_ge_binade)
    finally show ?thesis by (simp only: low)
  qed
  then have "1 / 2 ^ 1000 \<le> x \<longrightarrow> 1 / 2 ^ 1000 \<le> r" by (rule impI)
  with finite r_lo r_hi show ?thesis by (rule that)
qed

text \<open>
  The sum of the squares as the loop computes it, for a vector of at most \<open>2\<^sup>2\<^sup>0\<close> components
  of magnitude at most \<open>2\<^sup>5\<^sup>0\<^sup>0\<close>: it is finite, and at least \<open>2\<^sup>-\<^sup>1\<^sup>0\<^sup>0\<^sup>0\<close> when one component has
  magnitude at least \<open>2\<^sup>-\<^sup>5\<^sup>0\<^sup>0\<close>.
\<close>

lemma fold_squares_bounded:
  assumes "\<forall>x\<in>set a. \<bar>x\<bar> \<le> 2 ^ 500" and "0 \<le> v" and "v \<le> of_nat k * 2 ^ 1000"
    and "k + length a \<le> 2 ^ 20"
  shows "\<exists>D. fold (\<lambda>x acc. double_add acc (double_mul (Dbl x) (Dbl x))) a (Dbl v) = Dbl D
           \<and> 0 \<le> D \<and> D \<le> of_nat (k + length a) * 2 ^ 1000
           \<and> (1 / 2 ^ 1000 \<le> v \<or> (\<exists>x\<in>set a. 1 / 2 ^ 500 \<le> \<bar>x\<bar>) \<longrightarrow> 1 / 2 ^ 1000 \<le> D)"
  using assms
proof (induction a arbitrary: v k)
  case Nil
  then show ?case by simp
next
  case (Cons x xs)
  from Cons.prems(1) have x_hi: "\<bar>x\<bar> \<le> 2 ^ 500" by simp
  have sq: "x * x = \<bar>x\<bar> * \<bar>x\<bar>" by simp
  have "\<bar>x\<bar> * \<bar>x\<bar> \<le> 2 ^ 500 * 2 ^ 500" using x_hi by (intro mult_mono) simp_all
  then have "x * x \<le> of_nat 1 * 2 ^ 1000" by (simp only: sq) simp
  moreover have "0 \<le> x * x" by simp
  ultimately obtain q where q: "to_double (x * x) = Dbl q" and q_lo: "0 \<le> q"
    and q_hi: "q \<le> of_nat 1 * 2 ^ 1000"
    and q_normal: "1 / 2 ^ 1000 \<le> x * x \<longrightarrow> 1 / 2 ^ 1000 \<le> q"
    using to_double_bounded [of "x * x" 1] by auto
  have q_big: "1 / 2 ^ 1000 \<le> q" if "1 / 2 ^ 500 \<le> \<bar>x\<bar>"
  proof -
    have "1 / 2 ^ 500 * (1 / 2 ^ 500) \<le> \<bar>x\<bar> * \<bar>x\<bar>" using that by (intro mult_mono) simp_all
    then have "1 / 2 ^ 1000 \<le> x * x" by (simp only: sq) simp
    with q_normal show ?thesis by simp
  qed
  from Cons.prems(4) have k: "Suc k \<le> 2 ^ 20" by simp
  have "v + q \<le> of_nat k * 2 ^ 1000 + of_nat 1 * 2 ^ 1000" using Cons.prems(3) q_hi by (rule add_mono)
  then have "v + q \<le> of_nat (Suc k) * 2 ^ 1000" by (simp add: algebra_simps)
  moreover have "0 \<le> v + q" using Cons.prems(2) q_lo by simp
  ultimately obtain v1 where v1: "to_double (v + q) = Dbl v1" and v1_lo: "0 \<le> v1"
    and v1_hi: "v1 \<le> of_nat (Suc k) * 2 ^ 1000"
    and v1_normal: "1 / 2 ^ 1000 \<le> v + q \<longrightarrow> 1 / 2 ^ 1000 \<le> v1"
    using to_double_bounded [of "v + q" "Suc k"] k by auto
  have step: "fold (\<lambda>x acc. double_add acc (double_mul (Dbl x) (Dbl x))) (x # xs) (Dbl v)
      = fold (\<lambda>x acc. double_add acc (double_mul (Dbl x) (Dbl x))) xs (Dbl v1)"
    by (simp add: double_mul_finite double_add_finite q v1)
  from Cons.prems(1) have tail: "\<forall>x\<in>set xs. \<bar>x\<bar> \<le> 2 ^ 500" by simp
  from Cons.prems(4) have size: "Suc k + length xs \<le> 2 ^ 20" by simp
  from Cons.IH [OF tail v1_lo v1_hi size] obtain D where
    D: "fold (\<lambda>x acc. double_add acc (double_mul (Dbl x) (Dbl x))) xs (Dbl v1) = Dbl D"
    and D_lo: "0 \<le> D" and D_hi: "D \<le> of_nat (Suc k + length xs) * 2 ^ 1000"
    and D_normal: "1 / 2 ^ 1000 \<le> v1 \<or> (\<exists>x\<in>set xs. 1 / 2 ^ 500 \<le> \<bar>x\<bar>) \<longrightarrow> 1 / 2 ^ 1000 \<le> D"
    by blast
  have "1 / 2 ^ 1000 \<le> D" if "1 / 2 ^ 1000 \<le> v \<or> (\<exists>y\<in>set (x # xs). 1 / 2 ^ 500 \<le> \<bar>y\<bar>)"
  proof -
    from that consider "1 / 2 ^ 1000 \<le> v" | "1 / 2 ^ 500 \<le> \<bar>x\<bar>" | "\<exists>y\<in>set xs. 1 / 2 ^ 500 \<le> \<bar>y\<bar>"
      by auto
    then show ?thesis
    proof cases
      case 1
      with q_lo have "1 / 2 ^ 1000 \<le> v + q" by linarith
      with v1_normal D_normal show ?thesis by simp
    next
      case 2
      from q_big [OF 2] Cons.prems(2) have "1 / 2 ^ 1000 \<le> v + q" by linarith
      with v1_normal D_normal show ?thesis by simp
    next
      case 3
      with D_normal show ?thesis by simp
    qed
  qed
  with D D_lo D_hi step show ?case by (simp del: fold_simps)
qed

lemma cosine_self_doubles_range:
  assumes "length a \<le> 2 ^ 20" and "\<forall>x\<in>set a. \<bar>x\<bar> \<le> 2 ^ 500"
    and "\<exists>x\<in>set a. 1 / 2 ^ 500 \<le> \<bar>x\<bar>"
  shows "\<exists>r. calculateCosineSimilarity_double a a = Inr (Dbl r) \<and> \<bar>r - 1\<bar> \<le> 1 / 2 ^ 50"
proof -
  from fold_squares_bounded [of a 0 0] assms obtain D where
    D: "fold (\<lambda>x acc. double_add acc (double_mul (Dbl x) (Dbl x))) a (Dbl 0) = Dbl D"
    and D_hi: "D \<le> of_nat (length a) * 2 ^ 1000" and D_lo: "1 / 2 ^ 1000 \<le> D"
    by auto
  have sum: "fst (accumulate_double a a) = Dbl D"
    unfolding accumulate_double_def by (simp add: fold_double_self D)
  have "real (length a) \<le> 2 ^ 20" using assms(1) by (metis of_nat_le_iff of_nat_numeral of_nat_power)
  then have "of_nat (length a) * (2::real) ^ 1000 \<le> 2 ^ 20 * 2 ^ 1000" by (intro mult_right_mono) simp_all
  with D_hi have "D \<le> 2 ^ 20 * 2 ^ 1000" by (rule order_trans)
  then have hi: "D \<le> 2 ^ 1020" by simp
  have "(1::real) / 2 ^ 1020 \<le> 1 / 2 ^ 1000" by simp
  with D_lo have lo: "1 / 2 ^ 1020 \<le> D" by linarith
  from sum lo hi show ?thesis by (rule cosine_self_doubles)
qed

text \<open>
  Claim C8, amended. The cosine similarity is symmetric, in exact arithmetic and on
  doubles: the two calls return the same number, or both return \<open>NaN\<close>, or both throw (on
  vectors of different lengths). For every nonzero vector \<open>a\<close>, the cosine of \<open>a\<close> with
  itself is 1 in exact arithmetic. On doubles it is a number within \<open>2\<^sup>-\<^sup>5\<^sup>0\<close> of 1 when the
  sum of the squares of \<open>a\<close>, as the loop computes it, is a number between \<open>2\<^sup>-\<^sup>1\<^sup>0\<^sup>2\<^sup>0\<close> and
  \<open>2\<^sup>1\<^sup>0\<^sup>2\<^sup>0\<close>, so that the norms, their product and the quotient neither overflow nor
  underflow. This is so for every vector of at most \<open>2\<^sup>2\<^sup>0\<close> components of magnitude at most
  \<open>2\<^sup>5\<^sup>0\<^sup>0\<close>, one of which has magnitude at least \<open>2\<^sup>-\<^sup>5\<^sup>0\<^sup>0\<close>. The result need not be 1.
\<close>

theorem cosine_symmetric_and_self:
  "calculateCosineSimilarity a b = calculateCosineSimilarity b a
   \<and> calculateCosineSimilarity_double a b = calculateCosineSimilarity_double b a
   \<and> ((\<exists>x\<in>set a. x \<noteq> 0) \<longrightarrow> calculateCosineSimilarity a a = Inr 1)
   \<and> (fst (accumulate_double a a) = Dbl D \<and> 1 / 2 ^ 1020 \<le> D \<and> D \<le> 2 ^ 1020 \<longrightarrow>
        (\<exists>r. calculateCosineSimilarity_double a a = Inr (Dbl r) \<and> \<bar>r - 1\<bar> \<le> 1 / 2 ^ 50))
   \<and> (length a \<le> 2 ^ 20 \<and> (\<forall>x\<in>set a. \<bar>x\<bar> \<le> 2 ^ 500) \<and> (\<exists>x\<in>set a. 1 / 2 ^ 500 \<le> \<bar>x\<bar>) \<longrightarrow>
        (\<exists>r. calculateCosineSimilarity_double a a = Inr (Dbl r) \<and> \<bar>r - 1\<bar> \<le> 1 / 2 ^ 50))"
proof (intro conjI impI)
  show "calculateCosineSimilarity a b = calculateCosineSimilarity b a"
    by (rule cosine_symmetric)
  show "calculateCosineSimilarity_double a b = calculateCosineSimilarity_double b a"
    by (rule cosine_double_symmetric)
next
  assume "\<exists>x\<in>set a. x \<noteq> 0"
  then show "calculateCosineSimilarity a a = Inr 1" by (rule cosine_self_exact)
next
  assume "fst (accumulate_double a a) = Dbl D \<and> 1 / 2 ^ 1020 \<le> D \<and> D \<le> 2 ^ 1020"
  then show "\<exists>r. calculateCosineSimilarity_double a a = Inr (Dbl r) \<and> \<bar>r - 1\<bar> \<le> 1 / 2 ^ 50"
    by (intro cosine_self_doubles [of a D]) simp_all
next
  assume "length a \<le> 2 ^ 20 \<and> (\<forall>x\<in>set a. \<bar>x\<bar> \<le> 2 ^ 500) \<and> (\<exists>x\<in>set a. 1 / 2 ^ 500 \<le> \<bar>x\<bar>)"
  then show "\<exists>r. calculateCosineSimilarity_double a a = Inr (Dbl r) \<and> \<bar>r - 1\<bar> \<le> 1 / 2 ^ 50"
    by (intro cosine_self_doubles_range) simp_all
qed

theorem cosine_symmetric_and_self_witness:
  "calculateCosineSimilarity [1, 1] [1, 1] = Inr 1
   \<and> fst (accumulate_double [1, 1] [1, 1]) = Dbl 2
   \<and> length [1, 1 :: real] \<le> 2 ^ 20
   \<and> (\<exists>r. calculateCosineSimilarity_double [1, 1] [1, 1] = Inr (Dbl r) \<and> \<bar>r - 1\<bar> \<le> 1 / 2 ^ 50)
   \<and> calculateCosineSimilarity_double [1, 1] [0, 1] = calculateCosineSimilarity_double [0, 1] [1, 1]"
proof -
  have sum: "fst (accumulate_double [1, 1] [1, 1]) = Dbl 2" by (simp only: accumulate_ones fst_conv)
  have range: "(1::real) / 2 ^ 1020 \<le> 2 \<and> (2::real) \<le> 2 ^ 1020" by simp
  have nonzero: "\<exists>x\<in>set [1, 1 :: real]. x \<noteq> 0" by simp
  have size: "length [1, 1 :: real] \<le> 2 ^ 20" by simp
  have components: "(\<forall>x\<in>set [1, 1 :: real]. \<bar>x\<bar> \<le> 2 ^ 500) \<and> (\<exists>x\<in>set [1, 1 :: real]. 1 / 2 ^ 500 \<le> \<bar>x\<bar>)"
    by simp
  from cosine_symmetric_and_self [of "[1, 1]" "[0, 1]" 2] sum range nonzero size components
  show ?thesis by blast
qed

end
